theory Spec2Isabelle
  imports Main "HOL-Library.AList" "HOL-Library.Sublist"
begin

section \<open>Values\<close>

text \<open>
  The request body is decoded by \<^verbatim>\<open>request.get_json()\<close> into Python objects. A decoded
  JSON number is a Python \<^verbatim>\<open>int\<close> or a Python \<^verbatim>\<open>float\<close>; the decoder also produces the
  floats \<^verbatim>\<open>inf\<close>, \<^verbatim>\<open>-inf\<close> and \<^verbatim>\<open>nan\<close> (from \<^verbatim>\<open>1e999\<close>, \<^verbatim>\<open>Infinity\<close>, \<^verbatim>\<open>NaN\<close>).
  The finite floats are kept abstract (type variable \<open>'q\<close>); the three special floats
  are constructors, because \<^verbatim>\<open>int()\<close> treats them differently.

  A Python \<^verbatim>\<open>dict\<close> is an association list in insertion order. Strings are
  \<^typ>\<open>string\<close>; one \<^typ>\<open>char\<close> stands for one character of the Python string.
\<close>

datatype 'q py_float = Finite 'q | PosInf | NegInf | NaN

datatype 'q json =
    JNull
  | JBool bool
  | JInt int
  | JFloat "'q py_float"
  | JStr string
  | JList "'q json list"
  | JObj "(string \<times> 'q json) list"

text \<open>The values of \<^verbatim>\<open>type_mapping\<close>: the Python types \<^verbatim>\<open>int\<close>, \<^verbatim>\<open>float\<close>, \<^verbatim>\<open>str\<close>.\<close>

datatype py_type = PyInt | PyFloat | PyStr

text \<open>\<^verbatim>\<open>expected_features\<close>: a dict from field name to Python type, in insertion order.\<close>

type_synonym features = "(string \<times> py_type) list"

text \<open>\<^verbatim>\<open>type_mapping\<close> and the dict comprehension that builds \<^verbatim>\<open>expected_features\<close>
  from the items of the decoded \<^verbatim>\<open>features.json\<close> (a dict, so its keys are distinct);
  \<open>None\<close> is the \<^verbatim>\<open>KeyError\<close> that ends the process.\<close>

definition type_mapping :: "string \<Rightarrow> py_type option" where
  "type_mapping s =
     (if s = ''int'' then Some PyInt
      else if s = ''float'' then Some PyFloat
      else if s = ''str'' then Some PyStr
      else None)"

fun load_expected_features :: "(string \<times> string) list \<Rightarrow> features option" where
  "load_expected_features [] = Some []"
| "load_expected_features ((field, type_str) # rest) =
     (case type_mapping type_str of
        None \<Rightarrow> None
      | Some t \<Rightarrow>
          (case load_expected_features rest of
             None \<Rightarrow> None
           | Some fs \<Rightarrow> Some ((field, t) # fs)))"

text \<open>\<^verbatim>\<open>expected_type.__name__\<close>\<close>

fun type_name :: "py_type \<Rightarrow> string" where
  "type_name PyInt = ''int''"
| "type_name PyFloat = ''float''"
| "type_name PyStr = ''str''"

text \<open>The exceptions that the built-in operations used by the handler can raise
  (\<^verbatim>\<open>RecursionError\<close> comes from the JSON decoder only).\<close>

datatype py_exc = ValueError | TypeError | OverflowError | AttributeError | RecursionError

section \<open>The Python runtime\<close>

text \<open>
  The built-in operations whose results depend on CPython's number parsing, float
  arithmetic and text formatting are parameters of the model:
  \<^item> \<open>int_of_str s\<close>: \<^verbatim>\<open>int(s)\<close> for a string, \<open>None\<close> when it raises \<^verbatim>\<open>ValueError\<close>;
  \<^item> \<open>float_of_str s\<close>: \<^verbatim>\<open>float(s)\<close> for a string, \<open>None\<close> when it raises \<^verbatim>\<open>ValueError\<close>;
  \<^item> \<open>float_of_int n\<close>: \<^verbatim>\<open>float(n)\<close> for an int, \<open>None\<close> when it raises \<^verbatim>\<open>OverflowError\<close>;
  \<^item> \<open>trunc_float x\<close>: \<^verbatim>\<open>int(x)\<close> for a finite float;
  \<^item> \<open>float_is_neg x\<close>: \<^verbatim>\<open>x < 0\<close> for a finite float;
  \<^item> \<open>py_str v\<close>: \<^verbatim>\<open>str(v)\<close>, the text an f-string inserts for \<^verbatim>\<open>{v}\<close>;
  \<^item> \<open>py_repr v\<close>: \<^verbatim>\<open>repr(v)\<close>, the text of \<open>v\<close> inside a printed list.
\<close>

record 'q py_runtime =
  int_of_str :: "string \<Rightarrow> int option"
  float_of_str :: "string \<Rightarrow> 'q py_float option"
  float_of_int :: "int \<Rightarrow> 'q option"
  trunc_float :: "'q \<Rightarrow> int"
  float_is_neg :: "'q \<Rightarrow> bool"
  py_str :: "'q json \<Rightarrow> string"
  py_repr :: "'q json \<Rightarrow> string"

text \<open>\<^verbatim>\<open>int(value)\<close>\<close>

fun py_int :: "'q py_runtime \<Rightarrow> 'q json \<Rightarrow> py_exc + 'q json" where
  "py_int rt (JBool b) = Inr (JInt (if b then 1 else 0))"
| "py_int rt (JInt n) = Inr (JInt n)"
| "py_int rt (JFloat (Finite x)) = Inr (JInt (trunc_float rt x))"
| "py_int rt (JFloat NaN) = Inl ValueError"
| "py_int rt (JFloat PosInf) = Inl OverflowError"
| "py_int rt (JFloat NegInf) = Inl OverflowError"
| "py_int rt (JStr s) =
     (case int_of_str rt s of None \<Rightarrow> Inl ValueError | Some n \<Rightarrow> Inr (JInt n))"
| "py_int rt JNull = Inl TypeError"
| "py_int rt (JList xs) = Inl TypeError"
| "py_int rt (JObj kvs) = Inl TypeError"

text \<open>\<^verbatim>\<open>float(value)\<close>\<close>

fun py_float_of :: "'q py_runtime \<Rightarrow> 'q json \<Rightarrow> py_exc + 'q json" where
  "py_float_of rt (JBool b) =
     (case float_of_int rt (if b then 1 else 0) of
        None \<Rightarrow> Inl OverflowError
      | Some x \<Rightarrow> Inr (JFloat (Finite x)))"
| "py_float_of rt (JInt n) =
     (case float_of_int rt n of
        None \<Rightarrow> Inl OverflowError
      | Some x \<Rightarrow> Inr (JFloat (Finite x)))"
| "py_float_of rt (JFloat x) = Inr (JFloat x)"
| "py_float_of rt (JStr s) =
     (case float_of_str rt s of None \<Rightarrow> Inl ValueError | Some x \<Rightarrow> Inr (JFloat x))"
| "py_float_of rt JNull = Inl TypeError"
| "py_float_of rt (JList xs) = Inl TypeError"
| "py_float_of rt (JObj kvs) = Inl TypeError"

text \<open>\<^verbatim>\<open>expected_type(value)\<close>; \<^verbatim>\<open>str(value)\<close> raises for no decoded JSON value.\<close>

fun convert :: "'q py_runtime \<Rightarrow> py_type \<Rightarrow> 'q json \<Rightarrow> py_exc + 'q json" where
  "convert rt PyInt v = py_int rt v"
| "convert rt PyFloat v = py_float_of rt v"
| "convert rt PyStr v = Inr (JStr (py_str rt v))"

text \<open>\<^verbatim>\<open>value < 0\<close>. The handler evaluates it only on the result of \<^verbatim>\<open>int()\<close> or
  \<^verbatim>\<open>float()\<close>, which is an int or a float; \<^verbatim>\<open>nan < 0\<close> and \<^verbatim>\<open>inf < 0\<close> are false.\<close>

fun lt_zero :: "'q py_runtime \<Rightarrow> 'q json \<Rightarrow> bool" where
  "lt_zero rt (JInt n) = (n < 0)"
| "lt_zero rt (JFloat (Finite x)) = float_is_neg rt x"
| "lt_zero rt (JFloat NegInf) = True"
| "lt_zero rt v = False"

text \<open>\<^verbatim>\<open>', '.join(xs)\<close>\<close>

fun join :: "string \<Rightarrow> string list \<Rightarrow> string" where
  "join sep [] = []"
| "join sep [x] = x"
| "join sep (x # y # ys) = x @ sep @ join sep (y # ys)"

text \<open>The text of a list inside an f-string: \<^verbatim>\<open>[\<close>, the \<^verbatim>\<open>repr\<close> of each element
  separated by a comma and a space, \<^verbatim>\<open>]\<close>.\<close>

definition list_repr :: "'q py_runtime \<Rightarrow> 'q json list \<Rightarrow> string" where
  "list_repr rt xs = ''['' @ join '', '' (map (py_repr rt) xs) @ '']''"

text \<open>\<^verbatim>\<open>f"Record {idx}"\<close>\<close>

definition record_prefix :: "'q py_runtime \<Rightarrow> nat \<Rightarrow> string" where
  "record_prefix rt idx = ''Record '' @ py_str rt (JInt (int idx))"

section \<open>Operations on a record of the batch\<close>

text \<open>
  An element of the batch is any decoded JSON value; the handler does not check that it
  is an object before validating it. The four operations that the validators apply to a
  record are modelled for every kind of value.
\<close>

text \<open>\<^verbatim>\<open>field in input_data\<close> for a string \<open>field\<close>: key membership for a dict, substring test
  for a string, element membership for a list, \<^verbatim>\<open>TypeError\<close> for the rest.\<close>

fun py_contains :: "'q json \<Rightarrow> string \<Rightarrow> py_exc + bool" where
  "py_contains (JObj kvs) field = Inr (field \<in> set (map fst kvs))"
| "py_contains (JStr s) field = Inr (sublist field s)"
| "py_contains (JList xs) field = Inr (JStr field \<in> set xs)"
| "py_contains v field = Inl TypeError"

text \<open>\<^verbatim>\<open>for field in input_data\<close>: the keys of a dict, the characters of a string, the
  elements of a list, \<^verbatim>\<open>TypeError\<close> for the rest.\<close>

fun py_iter :: "'q json \<Rightarrow> py_exc + 'q json list" where
  "py_iter (JObj kvs) = Inr (map (\<lambda>kv. JStr (fst kv)) kvs)"
| "py_iter (JStr s) = Inr (map (\<lambda>c. JStr [c]) s)"
| "py_iter (JList xs) = Inr xs"
| "py_iter v = Inl TypeError"

text \<open>\<^verbatim>\<open>field in expected_features\<close>: a list or a dict is unhashable (\<^verbatim>\<open>TypeError\<close>); only
  a string can equal a key.\<close>

fun in_features :: "features \<Rightarrow> 'q json \<Rightarrow> py_exc + bool" where
  "in_features ef (JStr k) = Inr (k \<in> set (map fst ef))"
| "in_features ef (JList xs) = Inl TypeError"
| "in_features ef (JObj kvs) = Inl TypeError"
| "in_features ef v = Inr False"

text \<open>\<^verbatim>\<open>input_data.get(field)\<close>: \<open>JNull\<close> (Python's \<^verbatim>\<open>None\<close>) for an absent key;
  only a dict has the method.\<close>

definition dict_get :: "(string \<times> 'q json) list \<Rightarrow> string \<Rightarrow> 'q json" where
  "dict_get kvs field = (case map_of kvs field of None \<Rightarrow> JNull | Some v \<Rightarrow> v)"

fun py_get :: "'q json \<Rightarrow> string \<Rightarrow> py_exc + 'q json" where
  "py_get (JObj kvs) field = Inr (dict_get kvs field)"
| "py_get v field = Inl AttributeError"

text \<open>\<^verbatim>\<open>input_data[field] = value\<close>: the key keeps its place in the dict. The handler
  executes it only after \<^verbatim>\<open>input_data.get(field)\<close> has returned, so on a dict.\<close>

fun py_setitem :: "'q json \<Rightarrow> string \<Rightarrow> 'q json \<Rightarrow> 'q json" where
  "py_setitem (JObj kvs) field v = JObj (AList.update field v kvs)"
| "py_setitem d field v = d"

text \<open>A list comprehension \<^verbatim>\<open>[x for x in xs if p(x)]\<close> whose condition can raise.\<close>

fun comprehension :: "('a \<Rightarrow> py_exc + bool) \<Rightarrow> 'a list \<Rightarrow> py_exc + 'a list" where
  "comprehension p [] = Inr []"
| "comprehension p (x # xs) =
     (case p x of
        Inl e \<Rightarrow> Inl e
      | Inr b \<Rightarrow>
          (case comprehension p xs of
             Inl e \<Rightarrow> Inl e
           | Inr ys \<Rightarrow> Inr (if b then x # ys else ys)))"

text \<open>\<^verbatim>\<open>not\<close> and \<^verbatim>\<open>is None\<close> applied to an operation that can raise.\<close>

definition py_not :: "py_exc + bool \<Rightarrow> py_exc + bool" where
  "py_not r = (case r of Inl e \<Rightarrow> Inl e | Inr b \<Rightarrow> Inr (\<not> b))"

definition is_none :: "py_exc + 'q json \<Rightarrow> py_exc + bool" where
  "is_none r = (case r of Inl e \<Rightarrow> Inl e | Inr v \<Rightarrow> Inr (v = JNull))"

section \<open>\<^verbatim>\<open>validate_input_data\<close>\<close>

text \<open>
  One pass of the loop body for the record \<open>input_data\<close> at index \<open>idx\<close>. The result is
  \<open>Inl e\<close> when an operation raises \<open>e\<close>, \<open>Inr (Some msg)\<close> when the body executes
  \<^verbatim>\<open>return False, msg\<close>, and \<open>Inr None\<close> when the body falls through to the next
  record. Both \<^verbatim>\<open>missing_fields\<close> and \<^verbatim>\<open>extra_fields\<close> are computed before either is
  tested, as in the source.
\<close>

definition validate_record ::
  "'q py_runtime \<Rightarrow> features \<Rightarrow> nat \<Rightarrow> 'q json \<Rightarrow> py_exc + string option" where
  "validate_record rt expected_features idx input_data =
     (if input_data = JNull
      then Inr (Some (record_prefix rt idx @ '': No input data provided''))
      else
        (case comprehension (\<lambda>field. py_not (py_contains input_data field))
                (map fst expected_features) of
           Inl e \<Rightarrow> Inl e
         | Inr missing_fields \<Rightarrow>
        (case py_iter input_data of
           Inl e \<Rightarrow> Inl e
         | Inr its \<Rightarrow>
        (case comprehension (\<lambda>field. py_not (in_features expected_features field)) its of
           Inl e \<Rightarrow> Inl e
         | Inr extra_fields \<Rightarrow>
             if missing_fields \<noteq> []
             then Inr (Some (record_prefix rt idx @ '': Missing required fields: ''
                               @ list_repr rt (map JStr missing_fields)))
             else if extra_fields \<noteq> []
             then Inr (Some (record_prefix rt idx @ '': Unexpected fields provided: ''
                               @ list_repr rt extra_fields))
             else
               (case comprehension (\<lambda>field. is_none (py_get input_data field))
                       (map fst expected_features) of
                  Inl e \<Rightarrow> Inl e
                | Inr null_fields \<Rightarrow>
                    if null_fields \<noteq> []
                    then Inr (Some (record_prefix rt idx @ '': Fields cannot be null: ''
                                      @ list_repr rt (map JStr null_fields)))
                    else Inr None)))))"

text \<open>The loop \<^verbatim>\<open>for idx, input_data in enumerate(input_data_list)\<close>, from index \<open>idx\<close>.\<close>

fun validate_loop ::
  "'q py_runtime \<Rightarrow> features \<Rightarrow> nat \<Rightarrow> 'q json list \<Rightarrow> py_exc + (bool \<times> string)" where
  "validate_loop rt expected_features idx [] = Inr (True, [])"
| "validate_loop rt expected_features idx (input_data # rest) =
     (case validate_record rt expected_features idx input_data of
        Inl e \<Rightarrow> Inl e
      | Inr (Some msg) \<Rightarrow> Inr (False, msg)
      | Inr None \<Rightarrow> validate_loop rt expected_features (Suc idx) rest)"

definition validate_input_data ::
  "'q py_runtime \<Rightarrow> 'q json list \<Rightarrow> features \<Rightarrow> py_exc + (bool \<times> string)" where
  "validate_input_data rt input_data_list expected_features =
     validate_loop rt expected_features 0 input_data_list"

section \<open>\<^verbatim>\<open>check_data_types_and_values\<close>\<close>

text \<open>The three messages that the field loop appends.\<close>

definition null_message :: "string \<Rightarrow> string" where
  "null_message field = ''Field '' @ [CHR 39] @ field @ [CHR 39] @ '' cannot be null''"

definition type_message :: "'q py_runtime \<Rightarrow> string \<Rightarrow> py_type \<Rightarrow> 'q json \<Rightarrow> string" where
  "type_message rt field expected_type original_value =
     ''Field '' @ [CHR 39] @ field @ [CHR 39] @ '' must be of type '' @ type_name expected_type
       @ '' (got value '' @ [CHR 39] @ py_str rt original_value @ [CHR 39] @ '')''"

definition negative_message :: "string \<Rightarrow> string" where
  "negative_message field =
     ''Field '' @ [CHR 39] @ field @ [CHR 39] @ '' must be a non-negative number''"

text \<open>
  The inner loop \<^verbatim>\<open>for field, expected_type in expected_features.items()\<close> over the
  remaining items, with the record \<open>input_data\<close> and the two lists as the loop state.
  The record is mutated in place, so the function returns it: the first component is
  the record when the loop ends or raises, the second is \<open>Inl e\<close> for an exception that
  the \<^verbatim>\<open>except (ValueError, TypeError)\<close> clause does not catch, and
  \<open>Inr (type_errors, invalid_values)\<close> otherwise.
\<close>

fun check_fields ::
  "'q py_runtime \<Rightarrow> features \<Rightarrow> 'q json \<Rightarrow> string list \<Rightarrow> string list
     \<Rightarrow> 'q json \<times> (py_exc + (string list \<times> string list))" where
  "check_fields rt [] input_data type_errors invalid_values =
     (input_data, Inr (type_errors, invalid_values))"
| "check_fields rt ((field, expected_type) # rest) input_data type_errors invalid_values =
     (case py_get input_data field of
        Inl e \<Rightarrow> (input_data, Inl e)
      | Inr original_value \<Rightarrow>
          if original_value = JNull
          then check_fields rt rest input_data
                 (type_errors @ [null_message field]) invalid_values
          else
            (case convert rt expected_type original_value of
               Inl e \<Rightarrow>
                 if e = ValueError \<or> e = TypeError
                 then check_fields rt rest input_data
                        (type_errors @ [type_message rt field expected_type original_value])
                        invalid_values
                 else (input_data, Inl e)
             | Inr v \<Rightarrow>
                 if (expected_type = PyInt \<or> expected_type = PyFloat) \<and> lt_zero rt v
                 then check_fields rt rest (py_setitem input_data field v)
                        type_errors (invalid_values @ [negative_message field])
                 else check_fields rt rest (py_setitem input_data field v)
                        type_errors invalid_values))"

text \<open>
  The outer loop from index \<open>idx\<close>. The first component is the batch as the loop leaves
  it (the records are the caller's objects), the second the exception or the returned
  pair.
\<close>

fun check_loop ::
  "'q py_runtime \<Rightarrow> features \<Rightarrow> nat \<Rightarrow> 'q json list
     \<Rightarrow> 'q json list \<times> (py_exc + (bool \<times> string))" where
  "check_loop rt expected_features idx [] = ([], Inr (True, []))"
| "check_loop rt expected_features idx (input_data # rest) =
     (case check_fields rt expected_features input_data [] [] of
        (d, Inl e) \<Rightarrow> (d # rest, Inl e)
      | (d, Inr (type_errors, invalid_values)) \<Rightarrow>
          if type_errors \<noteq> []
          then (d # rest,
                Inr (False, record_prefix rt idx @ '': Invalid input format: Type errors - ''
                              @ join '', '' type_errors))
          else if invalid_values \<noteq> []
          then (d # rest,
                Inr (False, record_prefix rt idx @ '': Invalid values: ''
                              @ join '', '' invalid_values))
          else
            (case check_loop rt expected_features (Suc idx) rest of
               (rest', r) \<Rightarrow> (d # rest', r)))"

definition check_data_types_and_values ::
  "'q py_runtime \<Rightarrow> 'q json list \<Rightarrow> features
     \<Rightarrow> 'q json list \<times> (py_exc + (bool \<times> string))" where
  "check_data_types_and_values rt input_data_list expected_features =
     check_loop rt expected_features 0 input_data_list"

section \<open>\<^verbatim>\<open>convert_to_dataframe\<close> and the handlers\<close>

text \<open>
  \<^verbatim>\<open>pd.DataFrame(records, columns=...)\<close> and \<^verbatim>\<open>model.predict\<close> belong to pandas and to
  the unpickled model. They are parameters: \<open>pd_DataFrame records columns\<close> is
  \<open>Inr table\<close> or \<open>Inl text\<close>, the \<^verbatim>\<open>str(e)\<close> of the exception raised;
  \<open>model input_df\<close> stands for the body of the last \<^verbatim>\<open>try\<close> block (predict, \<^verbatim>\<open>tolist\<close>,
  log, \<^verbatim>\<open>jsonify\<close>) and is \<open>Inr predictions\<close> or \<open>Inl text\<close>.
\<close>

definition convert_to_dataframe ::
  "('q json list \<Rightarrow> string list \<Rightarrow> string + 't) \<Rightarrow> 'q json list \<Rightarrow> features
     \<Rightarrow> 't option \<times> string option" where
  "convert_to_dataframe pd_DataFrame input_data_list expected_features =
     (case pd_DataFrame input_data_list (map fst expected_features) of
        Inr input_df \<Rightarrow> (Some input_df, None)
      | Inl e \<Rightarrow> (None, Some e))"

text \<open>The dict given to \<^verbatim>\<open>jsonify\<close>; an absent key is \<open>None\<close>.\<close>

record 'q body =
  success :: bool
  error :: "string option"
  predictions :: "'q py_float list option"

definition error_body :: "string \<Rightarrow> 'q body" where
  "error_body msg = \<lparr>success = False, error = Some msg, predictions = None\<rparr>"

definition predictions_body :: "'q py_float list \<Rightarrow> 'q body" where
  "predictions_body ps = \<lparr>success = True, error = None, predictions = Some ps\<rparr>"

text \<open>What a view function produces: a response with its status code, or an exception
  that leaves the function.\<close>

datatype 'q http = Response nat "'q body" | Unhandled py_exc | UnhandledHTTP nat

text \<open>
  What \<^verbatim>\<open>request.get_json()\<close> does with the request: it returns the decoded body
  (\<open>JNull\<close> for the body \<^verbatim>\<open>null\<close>), raises \<^verbatim>\<open>BadRequest\<close> when the body cannot be
  decoded, or raises another HTTP exception with the given status code.
\<close>

datatype 'q get_json = Returns "'q json" | RaisesBadRequest | RaisesHTTPException nat

text \<open>The pipeline functions, to record which of them a request has called.\<close>

datatype stage = StValidate | StCheck | StDataFrame | StModel

text \<open>\<^verbatim>\<open>if error:\<close> on the second component of \<^verbatim>\<open>convert_to_dataframe\<close>'s result.\<close>

fun truthy :: "string option \<Rightarrow> bool" where
  "truthy None = False"
| "truthy (Some s) = (s \<noteq> [])"

text \<open>
  Steps 1 to 4 of \<^verbatim>\<open>predict\<close> on the list \<open>input_data\<close>. The second component lists the
  pipeline functions in the order in which they were called.
\<close>

definition pipeline ::
  "'q py_runtime \<Rightarrow> ('q json list \<Rightarrow> string list \<Rightarrow> string + 't)
     \<Rightarrow> ('t option \<Rightarrow> string + 'q py_float list) \<Rightarrow> features \<Rightarrow> 'q json list
     \<Rightarrow> 'q http \<times> stage list" where
  "pipeline rt pd_DataFrame model expected_features input_data =
     (case validate_input_data rt input_data expected_features of
        Inl e \<Rightarrow> (Unhandled e, [StValidate])
      | Inr (is_valid, error_message) \<Rightarrow>
          if \<not> is_valid then (Response 400 (error_body error_message), [StValidate])
          else
            (case check_data_types_and_values rt input_data expected_features of
               (input_data', Inl e) \<Rightarrow> (Unhandled e, [StValidate, StCheck])
             | (input_data', Inr (is_valid, error_message)) \<Rightarrow>
                 if \<not> is_valid
                 then (Response 400 (error_body error_message), [StValidate, StCheck])
                 else
                   (case convert_to_dataframe pd_DataFrame input_data' expected_features of
                      (input_df, err) \<Rightarrow>
                        if truthy err
                        then (Response 400 (error_body (''Invalid input format: '' @ the err)),
                              [StValidate, StCheck, StDataFrame])
                        else
                          (case model input_df of
                             Inr ps \<Rightarrow>
                               (Response 200 (predictions_body ps),
                                [StValidate, StCheck, StDataFrame, StModel])
                           | Inl e \<Rightarrow>
                               (Response 500 (error_body (''Prediction failed: '' @ e)),
                                [StValidate, StCheck, StDataFrame, StModel])))))"

text \<open>The view function of \<^verbatim>\<open>/predict\<close>.\<close>

definition predict ::
  "'q py_runtime \<Rightarrow> ('q json list \<Rightarrow> string list \<Rightarrow> string + 't)
     \<Rightarrow> ('t option \<Rightarrow> string + 'q py_float list) \<Rightarrow> features \<Rightarrow> 'q get_json
     \<Rightarrow> 'q http \<times> stage list" where
  "predict rt pd_DataFrame model expected_features request =
     (case request of
        RaisesBadRequest \<Rightarrow> (Response 400 (error_body ''Invalid JSON input format''), [])
      | RaisesHTTPException code \<Rightarrow> (UnhandledHTTP code, [])
      | Returns JNull \<Rightarrow> (Response 400 (error_body ''Invalid JSON input format''), [])
      | Returns (JList xs) \<Rightarrow> pipeline rt pd_DataFrame model expected_features xs
      | Returns (JObj kvs) \<Rightarrow> pipeline rt pd_DataFrame model expected_features [JObj kvs]
      | Returns v \<Rightarrow>
          (Response 400
             (error_body ''Input data must be a list of records or a single record object.''),
           []))"





text \<open>The error handler registered for \<^verbatim>\<open>BadRequest\<close>, applied to an exception with the
  text \<open>str_e\<close>, the description \<open>description\<close> and the status code \<open>code\<close>.\<close>

definition handle_bad_request :: "string \<Rightarrow> string \<Rightarrow> nat \<Rightarrow> 'q http" where
  "handle_bad_request str_e description code =
     (if sublist ''Failed to decode JSON object'' str_e \<or> sublist ''Expecting value'' str_e
      then Response 400 (error_body ''Invalid JSON input format'')
      else Response code (error_body description))"
section \<open>The presence checks, as the specification words them\<close>

text \<open>
  The fields that a dict lacks, the keys that the schema lacks, and the schema fields
  that the dict holds with the value null: each list in the order of the specification
  (schema order, record order, schema order).
\<close>

definition missing_of :: "features \<Rightarrow> (string \<times> 'q json) list \<Rightarrow> string list" where
  "missing_of ef kvs = filter (\<lambda>f. f \<notin> fst ` set kvs) (map fst ef)"

definition extra_of :: "features \<Rightarrow> (string \<times> 'q json) list \<Rightarrow> string list" where
  "extra_of ef kvs = filter (\<lambda>k. k \<notin> fst ` set ef) (map fst kvs)"

definition null_of :: "features \<Rightarrow> (string \<times> 'q json) list \<Rightarrow> string list" where
  "null_of ef kvs = filter (\<lambda>f. map_of kvs f = Some JNull) (map fst ef)"

text \<open>The four checks of the record validator in their order, what it means for a
  record (null or an object) to fail each, and the message of each.\<close>

datatype presence_check = NullRecord | MissingFields | ExtraFields | NullValues

definition presence_checks :: "presence_check list" where
  "presence_checks = [NullRecord, MissingFields, ExtraFields, NullValues]"

fun is_record :: "'q json \<Rightarrow> bool" where
  "is_record JNull = True"
| "is_record (JObj kvs) = True"
| "is_record v = False"

fun fails :: "features \<Rightarrow> 'q json \<Rightarrow> presence_check \<Rightarrow> bool" where
  "fails ef r NullRecord = (r = JNull)"
| "fails ef (JObj kvs) MissingFields = (missing_of ef kvs \<noteq> [])"
| "fails ef (JObj kvs) ExtraFields = (extra_of ef kvs \<noteq> [])"
| "fails ef (JObj kvs) NullValues = (null_of ef kvs \<noteq> [])"
| "fails ef r c = False"

fun presence_message ::
  "'q py_runtime \<Rightarrow> features \<Rightarrow> nat \<Rightarrow> 'q json \<Rightarrow> presence_check \<Rightarrow> string" where
  "presence_message rt ef i (JObj kvs) MissingFields =
     record_prefix rt i @ '': Missing required fields: ''
       @ list_repr rt (map JStr (missing_of ef kvs))"
| "presence_message rt ef i (JObj kvs) ExtraFields =
     record_prefix rt i @ '': Unexpected fields provided: ''
       @ list_repr rt (map JStr (extra_of ef kvs))"
| "presence_message rt ef i (JObj kvs) NullValues =
     record_prefix rt i @ '': Fields cannot be null: ''
       @ list_repr rt (map JStr (null_of ef kvs))"
| "presence_message rt ef i r c = record_prefix rt i @ '': No input data provided''"

definition passes_presence :: "features \<Rightarrow> 'q json \<Rightarrow> bool" where
  "passes_presence ef r = (is_record r \<and> (\<forall>c \<in> set presence_checks. \<not> fails ef r c))"

section \<open>The coercion stage, field by field\<close>

text \<open>
  What the type coercer does with one schema field of a record, stated on the record
  as the request delivered it. \<open>numeric\<close> is \<^verbatim>\<open>expected_type in [int, float]\<close>.
\<close>

definition numeric :: "py_type \<Rightarrow> bool" where
  "numeric ty = (ty = PyInt \<or> ty = PyFloat)"

text \<open>
  A field is in order when the record holds a non-null value for it that converts to
  the declared type and, for a numeric type, converts to a value that is not negative.
  A record is clean when it is an object and every schema field is in order.
\<close>

fun field_ok :: "'q py_runtime \<Rightarrow> (string \<times> 'q json) list \<Rightarrow> string \<times> py_type \<Rightarrow> bool" where
  "field_ok rt kvs (f, ty) =
     (dict_get kvs f \<noteq> JNull \<and>
      (case convert rt ty (dict_get kvs f) of
         Inl e \<Rightarrow> False
       | Inr v \<Rightarrow> \<not> (numeric ty \<and> lt_zero rt v)))"

fun clean_record :: "'q py_runtime \<Rightarrow> features \<Rightarrow> 'q json \<Rightarrow> bool" where
  "clean_record rt ef (JObj kvs) = list_all (field_ok rt kvs) ef"
| "clean_record rt ef v = False"

text \<open>
  The type-error message and the value-error message that one field contributes (the
  empty list for none), and whether its conversion raises an exception that the
  \<^verbatim>\<open>except\<close> clause does not catch.
\<close>

fun field_type_error ::
  "'q py_runtime \<Rightarrow> (string \<times> 'q json) list \<Rightarrow> string \<times> py_type \<Rightarrow> string list" where
  "field_type_error rt kvs (f, ty) =
     (if dict_get kvs f = JNull then [null_message f]
      else
        (case convert rt ty (dict_get kvs f) of
           Inl e \<Rightarrow> if e = ValueError \<or> e = TypeError
                    then [type_message rt f ty (dict_get kvs f)] else []
         | Inr v \<Rightarrow> []))"

fun field_value_error ::
  "'q py_runtime \<Rightarrow> (string \<times> 'q json) list \<Rightarrow> string \<times> py_type \<Rightarrow> string list" where
  "field_value_error rt kvs (f, ty) =
     (if dict_get kvs f = JNull then []
      else
        (case convert rt ty (dict_get kvs f) of
           Inl e \<Rightarrow> []
         | Inr v \<Rightarrow> if numeric ty \<and> lt_zero rt v then [negative_message f] else []))"

fun field_raises ::
  "'q py_runtime \<Rightarrow> (string \<times> 'q json) list \<Rightarrow> string \<times> py_type \<Rightarrow> bool" where
  "field_raises rt kvs (f, ty) =
     (dict_get kvs f \<noteq> JNull \<and>
      (case convert rt ty (dict_get kvs f) of
         Inl e \<Rightarrow> e \<noteq> ValueError \<and> e \<noteq> TypeError
       | Inr v \<Rightarrow> False))"

definition type_errors_of ::
  "'q py_runtime \<Rightarrow> features \<Rightarrow> (string \<times> 'q json) list \<Rightarrow> string list" where
  "type_errors_of rt ef kvs = concat (map (field_type_error rt kvs) ef)"

definition value_errors_of ::
  "'q py_runtime \<Rightarrow> features \<Rightarrow> (string \<times> 'q json) list \<Rightarrow> string list" where
  "value_errors_of rt ef kvs = concat (map (field_value_error rt kvs) ef)"

text \<open>
  The record after the field loop: every field whose conversion succeeded holds the
  converted value, the others are untouched; a conversion that raises ends the loop.
\<close>

fun coerced :: "'q py_runtime \<Rightarrow> features \<Rightarrow> (string \<times> 'q json) list \<Rightarrow> (string \<times> 'q json) list" where
  "coerced rt [] kvs = kvs"
| "coerced rt ((f, ty) # fs) kvs =
     (if dict_get kvs f = JNull then coerced rt fs kvs
      else
        (case convert rt ty (dict_get kvs f) of
           Inl e \<Rightarrow> if e = ValueError \<or> e = TypeError then coerced rt fs kvs else kvs
         | Inr v \<Rightarrow> coerced rt fs (AList.update f v kvs)))"

fun coerced_record :: "'q py_runtime \<Rightarrow> features \<Rightarrow> 'q json \<Rightarrow> 'q json" where
  "coerced_record rt ef (JObj kvs) = JObj (coerced rt ef kvs)"
| "coerced_record rt ef v = v"

text \<open>
  The message for a record with errors: the joined type errors if there are any, the
  joined value errors otherwise.
\<close>

definition check_message ::
  "'q py_runtime \<Rightarrow> features \<Rightarrow> nat \<Rightarrow> (string \<times> 'q json) list \<Rightarrow> string" where
  "check_message rt ef i kvs =
     (if type_errors_of rt ef kvs \<noteq> []
      then record_prefix rt i @ '': Invalid input format: Type errors - ''
             @ join '', '' (type_errors_of rt ef kvs)
      else record_prefix rt i @ '': Invalid values: '' @ join '', '' (value_errors_of rt ef kvs))"

text \<open>
  A valid record: an object whose key set is the schema's key set, whose values
  are all non-null, and whose every field is in order.
\<close>

fun valid_record :: "'q py_runtime \<Rightarrow> features \<Rightarrow> 'q json \<Rightarrow> bool" where
  "valid_record rt ef (JObj kvs) =
     (set (map fst kvs) = set (map fst ef)
      \<and> list_all (\<lambda>kv. snd kv \<noteq> JNull) kvs
      \<and> list_all (field_ok rt kvs) ef)"
| "valid_record rt ef v = False"

text \<open>
  A field converts when the record holds a non-null value for it and the conversion to
  the declared type returns a value. A record all of whose fields convert has no type
  error.
\<close>

fun converts :: "'q py_runtime \<Rightarrow> (string \<times> 'q json) list \<Rightarrow> string \<times> py_type \<Rightarrow> bool" where
  "converts rt kvs (f, ty) =
     (dict_get kvs f \<noteq> JNull \<and>
      (case convert rt ty (dict_get kvs f) of Inl e \<Rightarrow> False | Inr v \<Rightarrow> True))"

section \<open>A runtime and records for evaluating examples\<close>

text \<open>
  The theorems below hold for every runtime. To evaluate them on concrete requests, the
  following runtime covers a fragment of CPython: numerals are an optional sign
  and decimal digits, the finite floats are the integers below \<open>2 ^ 53\<close> in magnitude
  (\<^verbatim>\<open>8450.0\<close> is \<open>Finite 8450\<close>), and a string is printed between single quotes as it
  is. It agrees with CPython on the values of the examples; numerals with a fraction,
  an exponent, blanks or underscores, larger integers as floats, and strings that
  need escaping are outside the fragment.
\<close>

fun nat_of_digits :: "nat \<Rightarrow> string \<Rightarrow> nat option" where
  "nat_of_digits acc [] = Some acc"
| "nat_of_digits acc (c # cs) =
     (if c \<in> set ''0123456789'' then nat_of_digits (10 * acc + (of_char c - 48)) cs else None)"

definition sample_int_of_str :: "string \<Rightarrow> int option" where
  "sample_int_of_str s =
     (case s of
        [] \<Rightarrow> None
      | c # cs \<Rightarrow>
          if c = CHR ''-''
          then (if cs = [] then None else map_option (\<lambda>n. - int n) (nat_of_digits 0 cs))
          else if c = CHR ''+''
          then (if cs = [] then None else map_option int (nat_of_digits 0 cs))
          else map_option int (nat_of_digits 0 s))"

fun digits_of_nat :: "nat \<Rightarrow> string" where
  "digits_of_nat n =
     (if n < 10 then [''0123456789'' ! n] else digits_of_nat (n div 10) @ [''0123456789'' ! (n mod 10)])"

declare digits_of_nat.simps [simp del]

definition digits_of_int :: "int \<Rightarrow> string" where
  "digits_of_int i = (if i < 0 then ''-'' @ digits_of_nat (nat (- i)) else digits_of_nat (nat i))"

fun sample_repr :: "int json \<Rightarrow> string" where
  "sample_repr (JStr s) = [CHR 39] @ s @ [CHR 39]"
| "sample_repr (JInt n) = digits_of_int n"
| "sample_repr (JBool b) = (if b then ''True'' else ''False'')"
| "sample_repr JNull = ''None''"
| "sample_repr (JFloat (Finite n)) = digits_of_int n @ ''.0''"
| "sample_repr (JFloat PosInf) = ''inf''"
| "sample_repr (JFloat NegInf) = ''-inf''"
| "sample_repr (JFloat NaN) = ''nan''"
| "sample_repr (JList xs) = ''['' @ join '', '' (map sample_repr xs) @ '']''"
| "sample_repr (JObj kvs) =
     ''{'' @ join '', ''
              (map (\<lambda>kv. [CHR 39] @ fst kv @ [CHR 39] @ '': '' @ sample_repr (snd kv)) kvs)
       @ ''}''"

definition sample_str :: "int json \<Rightarrow> string" where
  "sample_str v = (case v of JStr s \<Rightarrow> s | _ \<Rightarrow> sample_repr v)"

definition sample_runtime :: "int py_runtime" where
  "sample_runtime =
     \<lparr>int_of_str = sample_int_of_str,
      float_of_str = (\<lambda>s. map_option (\<lambda>n. Finite n) (sample_int_of_str s)),
      float_of_int = (\<lambda>n. if \<bar>n\<bar> < 2 ^ 53 then Some n else None),
      trunc_float = (\<lambda>n. n),
      float_is_neg = (\<lambda>n. n < 0),
      py_str = sample_str,
      py_repr = sample_repr\<rparr>"

definition sample_features :: features where
  "sample_features = [(''LotArea'', PyInt), (''YearBuilt'', PyInt)]"

definition good_record :: "int json" where
  "good_record = JObj [(''LotArea'', JInt 8450), (''YearBuilt'', JInt 2003)]"

definition short_record :: "int json" where
  "short_record = JObj [(''LotArea'', JInt 1), (''Extra'', JNull)]"

definition text_record :: "int json" where
  "text_record = JObj [(''LotArea'', JStr ''8450''), (''YearBuilt'', JInt 2003)]"

definition bad_year :: "(string \<times> int json) list" where
  "bad_year = [(''LotArea'', JStr ''12''), (''YearBuilt'', JStr ''abc'')]"

text \<open>
  A table builder that lays the records out in column order, one that always fails,
  a model that predicts zero for every row, and one that always fails.
\<close>

definition sample_DataFrame :: "int json list \<Rightarrow> string list \<Rightarrow> string + int json list list" where
  "sample_DataFrame records columns =
     Inr (map (\<lambda>r. map (\<lambda>c. case py_get r c of Inl e \<Rightarrow> JNull | Inr v \<Rightarrow> v) columns) records)"

definition failing_DataFrame :: "int json list \<Rightarrow> string list \<Rightarrow> string + int json list list" where
  "failing_DataFrame records columns = Inl ''cannot build the table''"

definition sample_model :: "int json list list option \<Rightarrow> string + int py_float list" where
  "sample_model input_df =
     (case input_df of None \<Rightarrow> Inl ''no table'' | Some rows \<Rightarrow> Inr (map (\<lambda>r. Finite 0) rows))"

definition failing_model :: "int json list list option \<Rightarrow> string + int py_float list" where
  "failing_model input_df = Inl ''model failure''"

definition negative_fields :: "(string \<times> int json) list" where
  "negative_fields = [(''LotArea'', JInt (- 100)), (''YearBuilt'', JInt 2003)]"

definition negative_record :: "int json" where
  "negative_record = JObj negative_fields"

text \<open>
  A schema with a string-typed field, and a record for it.
\<close>

definition named_features :: features where
  "named_features = [(''Street'', PyStr), (''LotArea'', PyInt)]"

definition named_fields :: "(string \<times> int json) list" where
  "named_fields = [(''Street'', JInt 7), (''LotArea'', JStr ''abc'')]"

text \<open>
  A \<^verbatim>\<open>features.json\<close> with the seven fields that the tests send, each declared
  \<^verbatim>\<open>int\<close>, the schema loaded from it, and the record of the test with valid input.
\<close>

definition features_json :: "(string \<times> string) list" where
  "features_json =
     [(''LotArea'', ''int''), (''YearBuilt'', ''int''), (''1stFlrSF'', ''int''),
      (''2ndFlrSF'', ''int''), (''FullBath'', ''int''), (''BedroomAbvGr'', ''int''),
      (''TotRmsAbvGrd'', ''int'')]"

definition test_features :: features where
  "test_features =
     [(''LotArea'', PyInt), (''YearBuilt'', PyInt), (''1stFlrSF'', PyInt),
      (''2ndFlrSF'', PyInt), (''FullBath'', PyInt), (''BedroomAbvGr'', PyInt),
      (''TotRmsAbvGrd'', PyInt)]"

definition test_record :: "int json" where
  "test_record =
     JObj [(''LotArea'', JInt 8450), (''YearBuilt'', JInt 2003), (''1stFlrSF'', JInt 856),
           (''2ndFlrSF'', JInt 854), (''FullBath'', JInt 2), (''BedroomAbvGr'', JInt 3),
           (''TotRmsAbvGrd'', JInt 8)]"

definition two_fields :: "(string \<times> int json) list" where
  "two_fields = [(''LotArea'', JInt 8450), (''YearBuilt'', JInt 2003)]"

text \<open>
  The record that the body
  \<^verbatim>\<open>{"LotArea": "abc", "YearBuilt": 1e999, "1stFlrSF": 856, "2ndFlrSF": 854, "FullBath": 2, "BedroomAbvGr": 3, "TotRmsAbvGrd": 8}\<close>
  decodes to: the first field is not a numeral, the second is the float \<^verbatim>\<open>inf\<close>.
\<close>

definition overflow_record :: "int json" where
  "overflow_record =
     JObj [(''LotArea'', JStr ''abc''), (''YearBuilt'', JFloat PosInf), (''1stFlrSF'', JInt 856),
           (''2ndFlrSF'', JInt 854), (''FullBath'', JInt 2), (''BedroomAbvGr'', JInt 3),
           (''TotRmsAbvGrd'', JInt 8)]"

text \<open>
  The record that the body
  \<^verbatim>\<open>{"LotArea": -100, "YearBuilt": 1e999, "1stFlrSF": 856, "2ndFlrSF": 854, "FullBath": 2, "BedroomAbvGr": 3, "TotRmsAbvGrd": 8}\<close>
  decodes to, and the record of the test with valid input with \<^verbatim>\<open>"LotArea": 1e999\<close>.
\<close>

definition negative_overflow_fields :: "(string \<times> int json) list" where
  "negative_overflow_fields =
     [(''LotArea'', JInt (- 100)), (''YearBuilt'', JFloat PosInf), (''1stFlrSF'', JInt 856),
      (''2ndFlrSF'', JInt 854), (''FullBath'', JInt 2), (''BedroomAbvGr'', JInt 3),
      (''TotRmsAbvGrd'', JInt 8)]"

definition inf_record :: "int json" where
  "inf_record =
     JObj [(''LotArea'', JFloat PosInf), (''YearBuilt'', JInt 2003), (''1stFlrSF'', JInt 856),
           (''2ndFlrSF'', JInt 854), (''FullBath'', JInt 2), (''BedroomAbvGr'', JInt 3),
           (''TotRmsAbvGrd'', JInt 8)]"




section \<open>\<^verbatim>\<open>validate_input_data\<close>: order of the checks and the first failure\<close>

lemma comprehension_total: "comprehension (\<lambda>x. Inr (p x)) xs = Inr (filter p xs)"
  by (induction xs) simp_all

lemma null_of_get:
  assumes "missing_of ef kvs = []"
  shows "filter (\<lambda>f. dict_get kvs f = JNull) (map fst ef) = null_of ef kvs"
proof -
  have "\<forall>f \<in> set (map fst ef). f \<in> fst ` set kvs"
    using assms by (auto simp: missing_of_def filter_empty_conv)
  then have "\<forall>f \<in> set (map fst ef). map_of kvs f \<noteq> None"
    by (simp add: map_of_eq_None_iff)
  then show ?thesis
    unfolding null_of_def by (intro filter_cong) (auto simp: dict_get_def split: option.splits)
qed

lemma validate_record_null:
  "validate_record rt ef idx JNull = Inr (Some (record_prefix rt idx @ '': No input data provided''))"
  by (simp add: validate_record_def)

lemma validate_record_obj:
  "validate_record rt ef idx (JObj kvs) =
     Inr (if missing_of ef kvs \<noteq> []
          then Some (record_prefix rt idx @ '': Missing required fields: ''
                       @ list_repr rt (map JStr (missing_of ef kvs)))
          else if extra_of ef kvs \<noteq> []
          then Some (record_prefix rt idx @ '': Unexpected fields provided: ''
                       @ list_repr rt (map JStr (extra_of ef kvs)))
          else if null_of ef kvs \<noteq> []
          then Some (record_prefix rt idx @ '': Fields cannot be null: ''
                       @ list_repr rt (map JStr (null_of ef kvs)))
          else None)"
proof -
  have m: "comprehension (\<lambda>field. py_not (py_contains (JObj kvs) field)) (map fst ef)
             = Inr (missing_of ef kvs)"
    by (simp add: py_not_def comprehension_total missing_of_def)
  have x: "comprehension (\<lambda>field. py_not (in_features ef field))
             (map (\<lambda>kv. JStr (fst kv)) kvs) = Inr (map JStr (extra_of ef kvs))"
    by (induction kvs) (simp_all add: py_not_def extra_of_def)
  have n: "missing_of ef kvs = [] \<Longrightarrow>
           comprehension (\<lambda>field. is_none (py_get (JObj kvs) field)) (map fst ef)
             = Inr (null_of ef kvs)"
    by (simp add: is_none_def comprehension_total null_of_get)
  show ?thesis
  proof (cases "missing_of ef kvs = []")
    case True
    show ?thesis
      unfolding validate_record_def m n [OF True]
      by (simp add: True x)
  next
    case False
    show ?thesis
      unfolding validate_record_def m
      by (simp add: False x)
  qed
qed


lemma validate_record_passes:
  "passes_presence ef r \<Longrightarrow> validate_record rt ef idx r = Inr None"
  by (cases r) (simp_all add: passes_presence_def presence_checks_def validate_record_obj)

lemma validate_record_fails:
  assumes "is_record r" and "find (fails ef r) presence_checks = Some c"
  shows "validate_record rt ef idx r = Inr (Some (presence_message rt ef idx r c))"
proof (cases r)
  case JNull
  with assms show ?thesis
    by (simp add: presence_checks_def validate_record_null)
next
  case (JObj kvs)
  with assms show ?thesis
    by (auto simp: presence_checks_def validate_record_obj split: if_splits)
qed (use assms in simp_all)

lemma validate_loop_passes:
  "\<forall>p \<in> set pre. passes_presence ef p \<Longrightarrow>
   validate_loop rt ef idx (pre @ rest) = validate_loop rt ef (idx + length pre) rest"
  by (induction pre arbitrary: idx) (simp_all add: validate_record_passes)

text \<open>
  Claim C1. Let every record before index \<open>i\<close> pass the four presence checks, and let
  \<open>c\<close> be the first of the checks, in the order whole-record null, missing fields,
  extra fields, null values, that the record at index \<open>i\<close> fails. Then
  \<^verbatim>\<open>validate_input_data\<close> returns failure with the message of check \<open>c\<close> for record
  \<open>i\<close> alone: the later checks of that record and the records after it (which may be
  any values at all) have no influence on the result.
\<close>

theorem validate_input_data_first_failure:
  assumes "list_all (passes_presence ef) pre"
    and "is_record r"
    and "find (fails ef r) presence_checks = Some c"
  shows "validate_input_data rt (pre @ r # post) ef
           = Inr (False, presence_message rt ef (length pre) r c)"
  using assms
  by (simp add: validate_input_data_def validate_loop_passes validate_record_fails list_all_iff)

theorem validate_input_data_first_failure_witness:
  "list_all (passes_presence sample_features) [good_record]
   \<and> is_record short_record
   \<and> find (fails sample_features short_record) presence_checks = Some MissingFields
   \<and> validate_input_data sample_runtime ([good_record] @ short_record # [JInt 5]) sample_features
       = Inr (False, ''Record 1: Missing required fields: ['YearBuilt']'')"
proof -
  have h1: "list_all (passes_presence sample_features) [good_record]"
    by (simp add: passes_presence_def presence_checks_def sample_features_def good_record_def
        missing_of_def extra_of_def null_of_def)
  have h2: "is_record short_record" by (simp add: short_record_def)
  have h3: "find (fails sample_features short_record) presence_checks = Some MissingFields"
    by (simp add: presence_checks_def sample_features_def missing_of_def short_record_def)
  have m: "presence_message sample_runtime sample_features (length [good_record]) short_record
             MissingFields = ''Record 1: Missing required fields: ['YearBuilt']''"
    by code_simp
  from validate_input_data_first_failure [OF h1 h2 h3, of sample_runtime "[JInt 5]"]
  have "validate_input_data sample_runtime ([good_record] @ short_record # [JInt 5]) sample_features
       = Inr (False, ''Record 1: Missing required fields: ['YearBuilt']'')"
    by (simp only: m)
  with h1 h2 h3 show ?thesis by blast
qed

text \<open>
  Claim C3. When the first record that does not pass is an object that lacks a schema
  field, \<^verbatim>\<open>validate_input_data\<close> returns failure with the message
  \<^verbatim>\<open>Record {i}: Missing required fields: [...]\<close>, whose list holds exactly the schema
  fields that are not keys of the record, in the order of the schema.
\<close>

theorem validate_input_data_missing_fields:
  assumes "list_all (passes_presence ef) pre"
    and "\<exists>f \<in> set (map fst ef). f \<notin> set (map fst kvs)"
  shows "validate_input_data rt (pre @ JObj kvs # post) ef
           = Inr (False, record_prefix rt (length pre) @ '': Missing required fields: ''
                    @ list_repr rt (map JStr (filter (\<lambda>f. f \<notin> set (map fst kvs)) (map fst ef))))"
proof -
  have "missing_of ef kvs \<noteq> []"
    using assms(2) by (auto simp: missing_of_def filter_empty_conv)
  then show ?thesis
    using assms(1)
    by (simp add: validate_input_data_def validate_loop_passes validate_record_obj missing_of_def
        list_all_iff)
qed

theorem validate_input_data_missing_fields_witness:
  "list_all (passes_presence test_features) [test_record]
   \<and> (\<exists>f \<in> set (map fst test_features). f \<notin> set (map fst two_fields))
   \<and> validate_input_data sample_runtime ([test_record] @ JObj two_fields # []) test_features
       = Inr (False, ''Record 1: Missing required fields: ['1stFlrSF', '2ndFlrSF', 'FullBath', 'BedroomAbvGr', 'TotRmsAbvGrd']'')
   \<and> list_all (passes_presence test_features) ([] :: int json list)
   \<and> (\<exists>f \<in> set (map fst test_features). f \<notin> set (map fst ([] :: (string \<times> int json) list)))
   \<and> validate_input_data sample_runtime ([] @ JObj [] # []) test_features
       = Inr (False, ''Record 0: Missing required fields: ['LotArea', 'YearBuilt', '1stFlrSF', '2ndFlrSF', 'FullBath', 'BedroomAbvGr', 'TotRmsAbvGrd']'')"
proof -
  have h1: "list_all (passes_presence test_features) [test_record]"
    by code_simp
  have h2: "\<exists>f \<in> set (map fst test_features). f \<notin> set (map fst two_fields)"
    by code_simp
  have m1: "record_prefix sample_runtime (length [test_record]) @ '': Missing required fields: ''
              @ list_repr sample_runtime (map JStr
                  (filter (\<lambda>f. f \<notin> set (map fst two_fields)) (map fst test_features)))
            = ''Record 1: Missing required fields: ['1stFlrSF', '2ndFlrSF', 'FullBath', 'BedroomAbvGr', 'TotRmsAbvGrd']''"
    by code_simp
  have g1: "list_all (passes_presence test_features) ([] :: int json list)"
    by simp
  have g2: "\<exists>f \<in> set (map fst test_features).
              f \<notin> set (map fst ([] :: (string \<times> int json) list))"
    by code_simp
  have m0: "record_prefix sample_runtime (length ([] :: int json list))
              @ '': Missing required fields: ''
              @ list_repr sample_runtime (map JStr
                  (filter (\<lambda>f. f \<notin> set (map fst ([] :: (string \<times> int json) list)))
                     (map fst test_features)))
            = ''Record 0: Missing required fields: ['LotArea', 'YearBuilt', '1stFlrSF', '2ndFlrSF', 'FullBath', 'BedroomAbvGr', 'TotRmsAbvGrd']''"
    by code_simp
  from validate_input_data_missing_fields [OF h1 h2, of sample_runtime "[]"]
  have r1: "validate_input_data sample_runtime ([test_record] @ JObj two_fields # []) test_features
       = Inr (False, ''Record 1: Missing required fields: ['1stFlrSF', '2ndFlrSF', 'FullBath', 'BedroomAbvGr', 'TotRmsAbvGrd']'')"
    by (simp only: m1)
  from validate_input_data_missing_fields [OF g1 g2, of sample_runtime "[]"]
  have r0: "validate_input_data sample_runtime ([] @ JObj [] # []) test_features
       = Inr (False, ''Record 0: Missing required fields: ['LotArea', 'YearBuilt', '1stFlrSF', '2ndFlrSF', 'FullBath', 'BedroomAbvGr', 'TotRmsAbvGrd']'')"
    by (simp only: m0)
  from h1 h2 r1 g1 g2 r0 show ?thesis
    by (intro conjI)
qed

section \<open>\<^verbatim>\<open>check_data_types_and_values\<close>: errors and in-place coercion\<close>

lemma dict_get_update:
  "dict_get (AList.update f v kvs) g = (if g = f then v else dict_get kvs g)"
  by (simp add: dict_get_def update_conv')

lemma field_frame:
  assumes "fst p \<noteq> f"
  shows "field_type_error rt (AList.update f v kvs) p = field_type_error rt kvs p"
    and "field_value_error rt (AList.update f v kvs) p = field_value_error rt kvs p"
    and "field_raises rt (AList.update f v kvs) p = field_raises rt kvs p"
    and "field_ok rt (AList.update f v kvs) p = field_ok rt kvs p"
proof -
  obtain g t where p: "p = (g, t)" by (cases p)
  with assms have g: "dict_get (AList.update f v kvs) g = dict_get kvs g"
    by (simp add: dict_get_update)
  show "field_type_error rt (AList.update f v kvs) p = field_type_error rt kvs p"
    by (simp only: p field_type_error.simps g)
  show "field_value_error rt (AList.update f v kvs) p = field_value_error rt kvs p"
    by (simp only: p field_value_error.simps g)
  show "field_raises rt (AList.update f v kvs) p = field_raises rt kvs p"
    by (simp only: p field_raises.simps g)
  show "field_ok rt (AList.update f v kvs) p = field_ok rt kvs p"
    by (simp only: p field_ok.simps g)
qed

lemma errors_frame:
  assumes "f \<notin> fst ` set fs"
  shows "type_errors_of rt fs (AList.update f v kvs) = type_errors_of rt fs kvs"
    and "value_errors_of rt fs (AList.update f v kvs) = value_errors_of rt fs kvs"
    and "list_ex (field_raises rt (AList.update f v kvs)) fs = list_ex (field_raises rt kvs) fs"
    and "list_all (field_ok rt (AList.update f v kvs)) fs = list_all (field_ok rt kvs) fs"
proof -
  have ne: "\<And>p. p \<in> set fs \<Longrightarrow> fst p \<noteq> f"
    using assms by auto
  have "map (field_type_error rt (AList.update f v kvs)) fs = map (field_type_error rt kvs) fs"
    by (rule map_cong [OF refl]) (simp add: field_frame ne)
  then show "type_errors_of rt fs (AList.update f v kvs) = type_errors_of rt fs kvs"
    unfolding type_errors_of_def by (rule arg_cong)
  have "map (field_value_error rt (AList.update f v kvs)) fs = map (field_value_error rt kvs) fs"
    by (rule map_cong [OF refl]) (simp add: field_frame ne)
  then show "value_errors_of rt fs (AList.update f v kvs) = value_errors_of rt fs kvs"
    unfolding value_errors_of_def by (rule arg_cong)
  show "list_ex (field_raises rt (AList.update f v kvs)) fs = list_ex (field_raises rt kvs) fs"
    by (simp add: list_ex_iff field_frame ne)
  show "list_all (field_ok rt (AList.update f v kvs)) fs = list_all (field_ok rt kvs) fs"
    by (simp add: list_all_iff field_frame ne)
qed

lemma check_fields_returns:
  assumes "distinct (map fst fs)" and "\<not> list_ex (field_raises rt kvs) fs"
  shows "snd (check_fields rt fs (JObj kvs) tes ivs)
           = Inr (tes @ type_errors_of rt fs kvs, ivs @ value_errors_of rt fs kvs)"
  using assms
proof (induction fs arbitrary: kvs tes ivs)
  case Nil
  then show ?case by (simp add: type_errors_of_def value_errors_of_def)
next
  case (Cons p fs)
  obtain f ty where p: "p = (f, ty)" by (cases p)
  from Cons.prems p have nin: "f \<notin> fst ` set fs" and dist: "distinct (map fst fs)"
    and nr: "\<not> field_raises rt kvs (f, ty)" and nrs: "\<not> list_ex (field_raises rt kvs) fs"
    by simp_all
  have hd_t: "type_errors_of rt ((f, ty) # fs) kvs = field_type_error rt kvs (f, ty) @ type_errors_of rt fs kvs"
    and hd_v: "value_errors_of rt ((f, ty) # fs) kvs = field_value_error rt kvs (f, ty) @ value_errors_of rt fs kvs"
    by (simp_all add: type_errors_of_def value_errors_of_def)
  show ?case
  proof (cases "dict_get kvs f = JNull")
    case True
    then show ?thesis
      using Cons.IH [OF dist nrs] by (simp add: p hd_t hd_v)
  next
    case nonnull: False
    show ?thesis
    proof (cases "convert rt ty (dict_get kvs f)")
      case (Inl e)
      with nr nonnull have "e = ValueError \<or> e = TypeError" by auto
      with Inl nonnull show ?thesis
        using Cons.IH [OF dist nrs] by (simp add: p hd_t hd_v del: convert.simps)
    next
      case (Inr v)
      have nrs': "\<not> list_ex (field_raises rt (AList.update f v kvs)) fs"
        using nrs by (simp add: errors_frame [OF nin])
      from Inr nonnull show ?thesis
        using Cons.IH [OF dist nrs'] 
        by (simp add: p hd_t hd_v errors_frame [OF nin] numeric_def del: convert.simps)
    qed
  qed
qed

lemma check_fields_raises:
  assumes "distinct (map fst fs)" and "list_ex (field_raises rt kvs) fs"
  shows "\<exists>e. snd (check_fields rt fs (JObj kvs) tes ivs) = Inl e"
  using assms
proof (induction fs arbitrary: kvs tes ivs)
  case Nil
  then show ?case by simp
next
  case (Cons p fs)
  obtain f ty where p: "p = (f, ty)" by (cases p)
  from Cons.prems p have nin: "f \<notin> fst ` set fs" and dist: "distinct (map fst fs)"
    and r: "field_raises rt kvs (f, ty) \<or> list_ex (field_raises rt kvs) fs"
    by simp_all
  show ?case
  proof (cases "dict_get kvs f = JNull")
    case True
    with r have "list_ex (field_raises rt kvs) fs" by simp
    from Cons.IH [OF dist this] True show ?thesis by (simp add: p)
  next
    case nonnull: False
    show ?thesis
    proof (cases "convert rt ty (dict_get kvs f)")
      case (Inl e)
      show ?thesis
      proof (cases "e = ValueError \<or> e = TypeError")
        case True
        with r Inl nonnull have "list_ex (field_raises rt kvs) fs" by auto
        from Cons.IH [OF dist this] Inl nonnull True show ?thesis
          by (simp add: p del: convert.simps)
      next
        case False
        with Inl nonnull show ?thesis by (simp add: p del: convert.simps)
      qed
    next
      case (Inr v)
      with r nonnull have "list_ex (field_raises rt kvs) fs" by simp
      then have "list_ex (field_raises rt (AList.update f v kvs)) fs"
        by (simp add: errors_frame [OF nin])
      from Cons.IH [OF dist this] Inr nonnull show ?thesis
        by (simp add: p del: convert.simps)
    qed
  qed
qed

lemma check_fields_fst:
  "fst (check_fields rt fs (JObj kvs) tes ivs) = JObj (coerced rt fs kvs)"
proof (induction fs arbitrary: kvs tes ivs)
  case Nil
  show ?case by simp
next
  case (Cons p fs)
  obtain f ty where p: "p = (f, ty)" by (cases p)
  show ?case
    unfolding p
    by (cases "convert rt ty (dict_get kvs f)") (simp_all add: Cons.IH del: convert.simps)
qed

lemma coerced_frame:
  "g \<notin> fst ` set fs \<Longrightarrow> dict_get (coerced rt fs kvs) g = dict_get kvs g"
proof (induction fs arbitrary: kvs)
  case Nil
  show ?case by simp
next
  case (Cons p fs)
  obtain f ty where p: "p = (f, ty)" by (cases p)
  from Cons.prems p have "g \<noteq> f" and "g \<notin> fst ` set fs" by auto
  then show ?case
    unfolding p
    by (cases "convert rt ty (dict_get kvs f)")
      (simp_all add: Cons.IH dict_get_update del: convert.simps)
qed

lemma coerced_field:
  assumes "distinct (map fst fs)" and "(f, ty) \<in> set fs"
    and "dict_get kvs f \<noteq> JNull" and "convert rt ty (dict_get kvs f) = Inr v"
    and "\<not> list_ex (field_raises rt kvs) fs"
  shows "dict_get (coerced rt fs kvs) f = v"
  using assms
proof (induction fs arbitrary: kvs)
  case Nil
  then show ?case by simp
next
  case (Cons p fs)
  obtain g t where p: "p = (g, t)" by (cases p)
  from Cons.prems p have nin: "g \<notin> fst ` set fs" and dist: "distinct (map fst fs)"
    and nr: "\<not> field_raises rt kvs (g, t)" and nrs: "\<not> list_ex (field_raises rt kvs) fs"
    by simp_all
  show ?case
  proof (cases "g = f")
    case True
    with Cons.prems(2) p nin have "t = ty"
      by (auto simp: image_iff)
    with True Cons.prems(3,4) nin show ?thesis
      by (simp add: p coerced_frame dict_get_update del: convert.simps)
  next
    case False
    with Cons.prems(2) p have mem: "(f, ty) \<in> set fs" by auto
    show ?thesis
    proof (cases "dict_get kvs g = JNull")
      case True
      with Cons.IH [OF dist mem Cons.prems(3,4) nrs] show ?thesis by (simp add: p)
    next
      case nonnull: False
      show ?thesis
      proof (cases "convert rt t (dict_get kvs g)")
        case (Inl e)
        with nr nonnull have "e = ValueError \<or> e = TypeError" by auto
        with Inl nonnull Cons.IH [OF dist mem Cons.prems(3,4) nrs] show ?thesis
          by (simp add: p del: convert.simps)
      next
        case (Inr w)
        have same: "dict_get (AList.update g w kvs) f = dict_get kvs f"
          using False by (simp add: dict_get_update)
        have nrs': "\<not> list_ex (field_raises rt (AList.update g w kvs)) fs"
          using nrs by (simp add: errors_frame [OF nin])
        from Cons.IH [OF dist mem _ _ nrs', unfolded same, OF Cons.prems(3,4)] Inr nonnull
        show ?thesis
          by (simp add: p del: convert.simps)
      qed
    qed
  qed
qed

lemma field_ok_iff:
  "field_ok rt kvs p \<longleftrightarrow>
     field_type_error rt kvs p = [] \<and> field_value_error rt kvs p = [] \<and> \<not> field_raises rt kvs p"
proof (cases p)
  case (Pair f ty)
  show ?thesis
    unfolding Pair
    by (cases "convert rt ty (dict_get kvs f)") (auto simp del: convert.simps)
qed

lemma clean_iff:
  "list_all (field_ok rt kvs) fs \<longleftrightarrow>
     type_errors_of rt fs kvs = [] \<and> value_errors_of rt fs kvs = []
       \<and> \<not> list_ex (field_raises rt kvs) fs"
  by (auto simp: list_all_iff list_ex_iff type_errors_of_def value_errors_of_def field_ok_iff)

lemma check_fields_clean:
  assumes "distinct (map fst fs)"
  shows "snd (check_fields rt fs (JObj kvs) [] []) = Inr ([], [])
           \<longleftrightarrow> list_all (field_ok rt kvs) fs"
proof (cases "list_ex (field_raises rt kvs) fs")
  case True
  from check_fields_raises [OF assms True, of "[]" "[]"] True show ?thesis
    by (auto simp: clean_iff)
next
  case False
  from check_fields_returns [OF assms False, of "[]" "[]"] False show ?thesis
    by (simp add: clean_iff)
qed

lemma check_fields_clean_eq:
  assumes "distinct (map fst ef)" and "clean_record rt ef r"
  shows "check_fields rt ef r [] [] = (coerced_record rt ef r, Inr ([], []))"
proof -
  from assms(2) obtain kvs where r: "r = JObj kvs" and ok: "list_all (field_ok rt kvs) ef"
    by (cases r) simp_all
  show ?thesis
    unfolding r
    by (rule prod_eqI) (simp_all add: check_fields_fst check_fields_clean [OF assms(1)] ok)
qed

lemma check_loop_prefix:
  assumes "distinct (map fst ef)" and "list_all (clean_record rt ef) pre"
  shows "check_loop rt ef idx (pre @ rest)
           = (map (coerced_record rt ef) pre @ fst (check_loop rt ef (idx + length pre) rest),
              snd (check_loop rt ef (idx + length pre) rest))"
  using assms(2)
proof (induction pre arbitrary: idx)
  case Nil
  show ?case by simp
next
  case (Cons p pre)
  then have p: "clean_record rt ef p" and pre: "list_all (clean_record rt ef) pre"
    by simp_all
  show ?case
    by (simp add: check_fields_clean_eq [OF assms(1) p] Cons.IH [OF pre] split: prod.splits)
qed

lemma check_loop_head_raises:
  assumes "distinct (map fst ef)" and "list_ex (field_raises rt kvs) ef"
  shows "\<exists>e. snd (check_loop rt ef idx (JObj kvs # post)) = Inl e"
proof -
  from check_fields_raises [OF assms, of "[]" "[]"]
  obtain e where "snd (check_fields rt ef (JObj kvs) [] []) = Inl e" by blast
  then have "check_fields rt ef (JObj kvs) [] [] = (JObj (coerced rt ef kvs), Inl e)"
    by (intro prod_eqI) (simp_all add: check_fields_fst)
  then show ?thesis by simp
qed

lemma check_loop_head_fails:
  assumes "distinct (map fst ef)" and "\<not> list_ex (field_raises rt kvs) ef"
    and "\<not> list_all (field_ok rt kvs) ef"
  shows "check_loop rt ef idx (JObj kvs # post)
           = (JObj (coerced rt ef kvs) # post, Inr (False, check_message rt ef idx kvs))"
proof -
  have "check_fields rt ef (JObj kvs) [] []
          = (JObj (coerced rt ef kvs), Inr (type_errors_of rt ef kvs, value_errors_of rt ef kvs))"
    using check_fields_returns [OF assms(1,2), of "[]" "[]"]
    by (intro prod_eqI) (simp_all add: check_fields_fst)
  moreover have "type_errors_of rt ef kvs \<noteq> [] \<or> value_errors_of rt ef kvs \<noteq> []"
    using assms(2,3) by (simp add: clean_iff)
  ultimately show ?thesis
    by (auto simp: check_message_def)
qed

text \<open>
  The first record with an error decides the result. When the records before it are
  clean and none of its conversions raises an exception that the \<^verbatim>\<open>except\<close> clause
  lets through, the function returns failure with all type errors of that record
  joined, or, when it has none, all its value errors joined; the records after it are
  neither read nor changed.
\<close>

lemma check_first_error:
  assumes "distinct (map fst ef)" and "list_all (clean_record rt ef) pre"
    and "\<not> list_ex (field_raises rt kvs) ef" and "\<not> list_all (field_ok rt kvs) ef"
  shows "check_data_types_and_values rt (pre @ JObj kvs # post) ef
           = (map (coerced_record rt ef) pre @ JObj (coerced rt ef kvs) # post,
              Inr (False, check_message rt ef (length pre) kvs))"
  by (simp add: check_data_types_and_values_def check_loop_prefix [OF assms(1,2)]
      check_loop_head_fails [OF assms(1,3,4)] del: check_loop.simps)

lemma check_all_clean:
  assumes "distinct (map fst ef)" and "list_all (clean_record rt ef) batch"
  shows "check_data_types_and_values rt batch ef = (map (coerced_record rt ef) batch, Inr (True, []))"
  using check_loop_prefix [OF assms, of 0 "[]"]
  by (simp add: check_data_types_and_values_def)

lemma coerced_clean_field:
  assumes "distinct (map fst ef)" and "clean_record rt ef p" and "(f, ty) \<in> set ef"
  shows "\<exists>v v'. py_get p f = Inr v \<and> convert rt ty v = Inr v'
            \<and> py_get (coerced_record rt ef p) f = Inr v'"
proof -
  from assms(2) obtain kvs where p: "p = JObj kvs" and ok: "list_all (field_ok rt kvs) ef"
    by (cases p) simp_all
  from ok assms(3) have "field_ok rt kvs (f, ty)"
    by (auto simp: list_all_iff)
  then obtain v' where nn: "dict_get kvs f \<noteq> JNull" and c: "convert rt ty (dict_get kvs f) = Inr v'"
    by (cases "convert rt ty (dict_get kvs f)") (simp_all del: convert.simps)
  from ok have "\<not> list_ex (field_raises rt kvs) ef" by (simp add: clean_iff)
  from coerced_field [OF assms(1,3) nn c this] c show ?thesis
    by (simp add: p del: convert.simps)
qed

text \<open>
  Claim C9. \<^verbatim>\<open>check_data_types_and_values\<close> rewrites the records of the caller's batch
  and does not undo it when it returns failure. Let the records before index \<open>i\<close> be
  clean, let the record at index \<open>i\<close> be an object that is not clean, and let the
  function return failure. Then, in the batch it leaves behind, every schema field of
  every record before \<open>i\<close> holds the converted value, every field of record \<open>i\<close>
  whose conversion succeeded holds the converted value, and the records after \<open>i\<close>
  are as they were.
\<close>

theorem check_data_types_and_values_not_atomic:
  assumes "distinct (map fst ef)"
    and "list_all (clean_record rt ef) pre"
    and "\<not> clean_record rt ef (JObj kvs)"
    and "snd (check_data_types_and_values rt (pre @ JObj kvs # post) ef) = Inr (False, msg)"
  shows "\<exists>pre' kvs'.
           fst (check_data_types_and_values rt (pre @ JObj kvs # post) ef) = pre' @ JObj kvs' # post
         \<and> length pre' = length pre
         \<and> (\<forall>j < length pre. \<forall>(f, ty) \<in> set ef. \<exists>v v'.
               py_get (pre ! j) f = Inr v \<and> convert rt ty v = Inr v'
             \<and> py_get (pre' ! j) f = Inr v')
         \<and> (\<forall>(f, ty) \<in> set ef. \<forall>v'.
               dict_get kvs f \<noteq> JNull \<and> convert rt ty (dict_get kvs f) = Inr v'
               \<longrightarrow> dict_get kvs' f = v')"
proof -
  have nr: "\<not> list_ex (field_raises rt kvs) ef"
  proof
    assume "list_ex (field_raises rt kvs) ef"
    from check_loop_head_raises [OF assms(1) this, of "0 + length pre" post] assms(4)
    show False
      by (auto simp: check_data_types_and_values_def check_loop_prefix [OF assms(1,2)]
          simp del: check_loop.simps)
  qed
  from assms(3) have nc: "\<not> list_all (field_ok rt kvs) ef" by simp
  let ?pre' = "map (coerced_record rt ef) pre"
  let ?kvs' = "coerced rt ef kvs"
  have "fst (check_data_types_and_values rt (pre @ JObj kvs # post) ef) = ?pre' @ JObj ?kvs' # post"
    by (simp add: check_first_error [OF assms(1,2) nr nc])
  moreover have "length ?pre' = length pre" by simp
  moreover have "\<forall>j < length pre. \<forall>(f, ty) \<in> set ef. \<exists>v v'.
               py_get (pre ! j) f = Inr v \<and> convert rt ty v = Inr v'
             \<and> py_get (?pre' ! j) f = Inr v'"
  proof (intro allI impI ballI, clarify)
    fix j f ty
    assume j: "j < length pre" and mem: "(f, ty) \<in> set ef"
    from assms(2) j have "clean_record rt ef (pre ! j)"
      by (simp add: list_all_length)
    from coerced_clean_field [OF assms(1) this mem] j
    show "\<exists>v v'. py_get (pre ! j) f = Inr v \<and> convert rt ty v = Inr v'
             \<and> py_get (?pre' ! j) f = Inr v'"
      by simp
  qed
  moreover have "\<forall>(f, ty) \<in> set ef. \<forall>v'.
               dict_get kvs f \<noteq> JNull \<and> convert rt ty (dict_get kvs f) = Inr v'
               \<longrightarrow> dict_get ?kvs' f = v'"
    using coerced_field [OF assms(1) _ _ _ nr] by blast
  ultimately show ?thesis by blast
qed

theorem check_data_types_and_values_not_atomic_witness:
  "distinct (map fst sample_features)
   \<and> list_all (clean_record sample_runtime sample_features) [text_record]
   \<and> \<not> clean_record sample_runtime sample_features (JObj bad_year)
   \<and> check_data_types_and_values sample_runtime ([text_record] @ JObj bad_year # [JInt 5])
         sample_features
       = ([good_record, JObj [(''LotArea'', JInt 12), (''YearBuilt'', JStr ''abc'')], JInt 5],
          Inr (False, ''Record 1: Invalid input format: Type errors - Field 'YearBuilt' must be of type int (got value 'abc')''))
   \<and> (\<exists>pre' kvs'.
         fst (check_data_types_and_values sample_runtime ([text_record] @ JObj bad_year # [JInt 5])
                sample_features) = pre' @ JObj kvs' # [JInt 5]
       \<and> length pre' = length [text_record]
       \<and> (\<forall>j < length [text_record]. \<forall>(f, ty) \<in> set sample_features. \<exists>v v'.
             py_get ([text_record] ! j) f = Inr v \<and> convert sample_runtime ty v = Inr v'
           \<and> py_get (pre' ! j) f = Inr v')
       \<and> (\<forall>(f, ty) \<in> set sample_features. \<forall>v'.
             dict_get bad_year f \<noteq> JNull \<and> convert sample_runtime ty (dict_get bad_year f) = Inr v'
             \<longrightarrow> dict_get kvs' f = v'))"
proof -
  have h1: "distinct (map fst sample_features)"
    by (simp add: sample_features_def)
  have h2: "list_all (clean_record sample_runtime sample_features) [text_record]"
    by code_simp
  have h3: "\<not> clean_record sample_runtime sample_features (JObj bad_year)"
    by code_simp
  have e: "check_data_types_and_values sample_runtime ([text_record] @ JObj bad_year # [JInt 5])
         sample_features
       = ([good_record, JObj [(''LotArea'', JInt 12), (''YearBuilt'', JStr ''abc'')], JInt 5],
          Inr (False, ''Record 1: Invalid input format: Type errors - Field 'YearBuilt' must be of type int (got value 'abc')''))"
    by code_simp
  have h4: "snd (check_data_types_and_values sample_runtime ([text_record] @ JObj bad_year # [JInt 5])
         sample_features)
       = Inr (False, ''Record 1: Invalid input format: Type errors - Field 'YearBuilt' must be of type int (got value 'abc')'')"
    by (simp only: e snd_conv)
  from check_data_types_and_values_not_atomic [OF h1 h2 h3 h4] h1 h2 h3 e
  show ?thesis by blast
qed

section \<open>Valid records pass both validators\<close>

lemma valid_passes_presence:
  assumes "valid_record rt ef r"
  shows "passes_presence ef r"
proof -
  from assms obtain kvs where r: "r = JObj kvs"
    and keys: "set (map fst kvs) = set (map fst ef)"
    and ok: "list_all (field_ok rt kvs) ef"
    by (cases r) simp_all
  have "missing_of ef kvs = []" and "extra_of ef kvs = []"
    using keys by (auto simp: missing_of_def extra_of_def filter_empty_conv)
  moreover have "null_of ef kvs = []"
  proof -
    have "map_of kvs f \<noteq> Some JNull" if "f \<in> set (map fst ef)" for f
    proof -
      from that obtain ty where "(f, ty) \<in> set ef" by auto
      with ok have "field_ok rt kvs (f, ty)" by (auto simp: list_all_iff)
      then have "dict_get kvs f \<noteq> JNull" by simp
      then show ?thesis by (auto simp: dict_get_def)
    qed
    then show ?thesis by (simp add: null_of_def filter_empty_conv)
  qed
  ultimately show ?thesis
    by (simp add: r passes_presence_def presence_checks_def)
qed

lemma valid_clean: "valid_record rt ef r \<Longrightarrow> clean_record rt ef r"
  by (cases r) simp_all

lemma validate_all_pass:
  "list_all (passes_presence ef) batch \<Longrightarrow> validate_input_data rt batch ef = Inr (True, [])"
  using validate_loop_passes [of batch ef rt 0 "[]"]
  by (simp add: validate_input_data_def list_all_iff)

lemma pipeline_passes:
  assumes "validate_input_data rt batch ef = Inr (True, m)"
    and "check_data_types_and_values rt batch ef = (batch', Inr (True, m'))"
  shows "pipeline rt pd model ef batch =
           (case convert_to_dataframe pd batch' ef of
              (input_df, err) \<Rightarrow>
                if truthy err
                then (Response 400 (error_body (''Invalid input format: '' @ the err)),
                      [StValidate, StCheck, StDataFrame])
                else
                  (case model input_df of
                     Inr ps \<Rightarrow> (Response 200 (predictions_body ps),
                                 [StValidate, StCheck, StDataFrame, StModel])
                   | Inl e \<Rightarrow> (Response 500 (error_body (''Prediction failed: '' @ e)),
                                [StValidate, StCheck, StDataFrame, StModel])))"
  by (simp add: pipeline_def assms)

text \<open>
  Claim C4. For a batch of valid records (key set equal to the schema's, no null
  value, every value converting to its declared type with a non-negative result for
  the numeric types), \<^verbatim>\<open>validate_input_data\<close> and \<^verbatim>\<open>check_data_types_and_values\<close> both
  return success; the request passes on to the construction of the table and, when
  that reports no error, to the model.
\<close>

theorem valid_batch_reaches_model:
  assumes "distinct (map fst ef)" and "list_all (valid_record rt ef) batch"
  shows "validate_input_data rt batch ef = Inr (True, [])
       \<and> snd (check_data_types_and_values rt batch ef) = Inr (True, [])
       \<and> prefix [StValidate, StCheck, StDataFrame]
            (snd (predict rt pd model ef (Returns (JList batch))))
       \<and> (\<not> truthy (snd (convert_to_dataframe pd
                            (fst (check_data_types_and_values rt batch ef)) ef))
            \<longrightarrow> snd (predict rt pd model ef (Returns (JList batch)))
                  = [StValidate, StCheck, StDataFrame, StModel])"
proof -
  have v: "validate_input_data rt batch ef = Inr (True, [])"
    using assms(2) by (intro validate_all_pass) (auto simp: list_all_iff valid_passes_presence)
  have "list_all (clean_record rt ef) batch"
    using assms(2) by (auto simp: list_all_iff valid_clean)
  from check_all_clean [OF assms(1) this]
  have c: "check_data_types_and_values rt batch ef
             = (map (coerced_record rt ef) batch, Inr (True, []))" .
  have p: "predict rt pd model ef (Returns (JList batch)) = pipeline rt pd model ef batch"
    by (simp add: predict_def)
  show ?thesis
    unfolding p pipeline_passes [OF v c]
    by (auto simp: v c split: prod.splits sum.splits)
qed

theorem valid_batch_reaches_model_witness:
  "distinct (map fst sample_features)
   \<and> list_all (valid_record sample_runtime sample_features) [good_record, text_record]
   \<and> \<not> truthy (snd (convert_to_dataframe sample_DataFrame
         (fst (check_data_types_and_values sample_runtime [good_record, text_record]
                 sample_features)) sample_features))
   \<and> validate_input_data sample_runtime [good_record, text_record] sample_features = Inr (True, [])
   \<and> snd (check_data_types_and_values sample_runtime [good_record, text_record] sample_features)
       = Inr (True, [])
   \<and> snd (predict sample_runtime sample_DataFrame sample_model sample_features
            (Returns (JList [good_record, text_record])))
       = [StValidate, StCheck, StDataFrame, StModel]"
proof -
  have h1: "distinct (map fst sample_features)"
    by (simp add: sample_features_def)
  have h2: "list_all (valid_record sample_runtime sample_features) [good_record, text_record]"
    by code_simp
  have h3: "\<not> truthy (snd (convert_to_dataframe sample_DataFrame
         (fst (check_data_types_and_values sample_runtime [good_record, text_record]
                 sample_features)) sample_features))"
    by (simp add: convert_to_dataframe_def sample_DataFrame_def)
  from valid_batch_reaches_model [OF h1 h2, of sample_DataFrame sample_model] h1 h2 h3
  show ?thesis by blast
qed

section \<open>The view function\<close>

lemma load_features_json: "load_expected_features features_json = Some test_features"
  by (simp add: features_json_def test_features_def type_mapping_def)

lemma handle_bad_request_decode_error:
  "sublist ''Failed to decode JSON object'' str_e \<or> sublist ''Expecting value'' str_e \<Longrightarrow>
   handle_bad_request str_e description code
     = Response 400 (error_body ''Invalid JSON input format'')"
  by (auto simp: handle_bad_request_def)

text \<open>
  Claim C5. A request whose body is a single JSON object gets the same response
  (the same validation error or the same predictions, after the same calls) as the
  request whose body is the one-element array holding that object.
\<close>

theorem predict_single_object:
  "predict rt pd model ef (Returns (JObj kvs)) = predict rt pd model ef (Returns (JList [JObj kvs]))"
  by (simp add: predict_def)





lemma pipeline_trace:
  "prefix (snd (pipeline rt pd model ef batch)) [StValidate, StCheck, StDataFrame, StModel]"
  by (simp add: pipeline_def split: sum.splits prod.splits)

lemma predict_trace:
  "prefix (snd (predict rt pd model ef req)) [StValidate, StCheck, StDataFrame, StModel]"
  by (simp add: predict_def pipeline_trace split: get_json.splits json.splits)

text \<open>
  The pipeline functions are called in the order validation, type and value check,
  table construction, model: for every request the calls made form an initial segment
  of that order. When \<^verbatim>\<open>validate_input_data\<close> returns failure, the response is its
  message with status 400 and nothing else was called; when
  \<^verbatim>\<open>check_data_types_and_values\<close> returns failure, the response is its message with
  status 400 and the last call was the check; when \<^verbatim>\<open>convert_to_dataframe\<close> reports a
  non-empty error text, the response is status 400 and the model was not called; when
  the model fails, the response is status 500.
\<close>

lemma predict_fails_fast:
  "prefix (snd (predict rt pd model ef req)) [StValidate, StCheck, StDataFrame, StModel]
   \<and> (validate_input_data rt b1 ef = Inr (False, m1)
        \<longrightarrow> predict rt pd model ef (Returns (JList b1))
              = (Response 400 (error_body m1), [StValidate]))
   \<and> (validate_input_data rt b2 ef = Inr (True, n2)
        \<and> snd (check_data_types_and_values rt b2 ef) = Inr (False, m2)
        \<longrightarrow> predict rt pd model ef (Returns (JList b2))
              = (Response 400 (error_body m2), [StValidate, StCheck]))
   \<and> (validate_input_data rt b3 ef = Inr (True, n3)
        \<and> check_data_types_and_values rt b3 ef = (b3', Inr (True, k3))
        \<and> convert_to_dataframe pd b3' ef = (df3, Some m3) \<and> m3 \<noteq> []
        \<longrightarrow> predict rt pd model ef (Returns (JList b3))
              = (Response 400 (error_body (''Invalid input format: '' @ m3)),
                 [StValidate, StCheck, StDataFrame]))
   \<and> (validate_input_data rt b4 ef = Inr (True, n4)
        \<and> check_data_types_and_values rt b4 ef = (b4', Inr (True, k4))
        \<and> convert_to_dataframe pd b4' ef = (df4, None) \<and> model df4 = Inl m4
        \<longrightarrow> predict rt pd model ef (Returns (JList b4))
              = (Response 500 (error_body (''Prediction failed: '' @ m4)),
                 [StValidate, StCheck, StDataFrame, StModel]))"
proof (intro conjI impI)
  show "prefix (snd (predict rt pd model ef req)) [StValidate, StCheck, StDataFrame, StModel]"
    by (rule predict_trace)
next
  assume "validate_input_data rt b1 ef = Inr (False, m1)"
  then show "predict rt pd model ef (Returns (JList b1))
              = (Response 400 (error_body m1), [StValidate])"
    by (simp add: predict_def pipeline_def)
next
  assume a: "validate_input_data rt b2 ef = Inr (True, n2)
        \<and> snd (check_data_types_and_values rt b2 ef) = Inr (False, m2)"
  then obtain b2' where "check_data_types_and_values rt b2 ef = (b2', Inr (False, m2))"
    by (cases "check_data_types_and_values rt b2 ef") simp
  with a show "predict rt pd model ef (Returns (JList b2))
              = (Response 400 (error_body m2), [StValidate, StCheck])"
    by (simp add: predict_def pipeline_def)
next
  assume "validate_input_data rt b3 ef = Inr (True, n3)
        \<and> check_data_types_and_values rt b3 ef = (b3', Inr (True, k3))
        \<and> convert_to_dataframe pd b3' ef = (df3, Some m3) \<and> m3 \<noteq> []"
  then show "predict rt pd model ef (Returns (JList b3))
              = (Response 400 (error_body (''Invalid input format: '' @ m3)),
                 [StValidate, StCheck, StDataFrame])"
    by (simp add: predict_def pipeline_def)
next
  assume "validate_input_data rt b4 ef = Inr (True, n4)
        \<and> check_data_types_and_values rt b4 ef = (b4', Inr (True, k4))
        \<and> convert_to_dataframe pd b4' ef = (df4, None) \<and> model df4 = Inl m4"
  then show "predict rt pd model ef (Returns (JList b4))
              = (Response 500 (error_body (''Prediction failed: '' @ m4)),
                 [StValidate, StCheck, StDataFrame, StModel])"
    by (simp add: predict_def pipeline_def)
qed

lemma predict_fails_fast_example:
  "validate_input_data sample_runtime [short_record] sample_features
     = Inr (False, ''Record 0: Missing required fields: ['YearBuilt']'')
   \<and> predict sample_runtime sample_DataFrame sample_model sample_features
         (Returns (JList [short_record]))
       = (Response 400 (error_body ''Record 0: Missing required fields: ['YearBuilt']''),
          [StValidate])
   \<and> validate_input_data sample_runtime [negative_record] sample_features = Inr (True, [])
   \<and> snd (check_data_types_and_values sample_runtime [negative_record] sample_features)
       = Inr (False, ''Record 0: Invalid values: Field 'LotArea' must be a non-negative number'')
   \<and> predict sample_runtime sample_DataFrame sample_model sample_features
         (Returns (JList [negative_record]))
       = (Response 400
            (error_body ''Record 0: Invalid values: Field 'LotArea' must be a non-negative number''),
          [StValidate, StCheck])
   \<and> validate_input_data sample_runtime [good_record] sample_features = Inr (True, [])
   \<and> check_data_types_and_values sample_runtime [good_record] sample_features
       = ([good_record], Inr (True, []))
   \<and> convert_to_dataframe failing_DataFrame [good_record] sample_features
       = (None, Some ''cannot build the table'')
   \<and> predict sample_runtime failing_DataFrame sample_model sample_features
         (Returns (JList [good_record]))
       = (Response 400 (error_body ''Invalid input format: cannot build the table''),
          [StValidate, StCheck, StDataFrame])
   \<and> convert_to_dataframe sample_DataFrame [good_record] sample_features
       = (Some [[JInt 8450, JInt 2003]], None)
   \<and> failing_model (Some [[JInt 8450, JInt 2003]]) = Inl ''model failure''
   \<and> predict sample_runtime sample_DataFrame failing_model sample_features
         (Returns (JList [good_record]))
       = (Response 500 (error_body ''Prediction failed: model failure''),
          [StValidate, StCheck, StDataFrame, StModel])"
proof -
  have v1: "validate_input_data sample_runtime [short_record] sample_features
     = Inr (False, ''Record 0: Missing required fields: ['YearBuilt']'')"
    by code_simp
  have v2: "validate_input_data sample_runtime [negative_record] sample_features = Inr (True, [])"
    by code_simp
  have c2: "snd (check_data_types_and_values sample_runtime [negative_record] sample_features)
       = Inr (False, ''Record 0: Invalid values: Field 'LotArea' must be a non-negative number'')"
    by code_simp
  have v3: "validate_input_data sample_runtime [good_record] sample_features = Inr (True, [])"
    by code_simp
  have c3: "check_data_types_and_values sample_runtime [good_record] sample_features
       = ([good_record], Inr (True, []))"
    by code_simp
  have d3: "convert_to_dataframe failing_DataFrame [good_record] sample_features
       = (None, Some ''cannot build the table'')"
    by code_simp
  have d4: "convert_to_dataframe sample_DataFrame [good_record] sample_features
       = (Some [[JInt 8450, JInt 2003]], None)"
    by code_simp
  have m4: "failing_model (Some [[JInt 8450, JInt 2003]]) = Inl ''model failure''"
    by (simp add: failing_model_def)
  note t = predict_fails_fast [where rt = sample_runtime and ef = sample_features
      and ?b1.0 = "[short_record]" and ?b2.0 = "[negative_record]"]
  have r1: "predict sample_runtime sample_DataFrame sample_model sample_features
         (Returns (JList [short_record]))
       = (Response 400 (error_body ''Record 0: Missing required fields: ['YearBuilt']''),
          [StValidate])"
    using t [where pd = sample_DataFrame and model = sample_model] v1 by blast
  have r2: "predict sample_runtime sample_DataFrame sample_model sample_features
         (Returns (JList [negative_record]))
       = (Response 400
            (error_body ''Record 0: Invalid values: Field 'LotArea' must be a non-negative number''),
          [StValidate, StCheck])"
    using t [where pd = sample_DataFrame and model = sample_model] v2 c2 by blast
  have r3: "predict sample_runtime failing_DataFrame sample_model sample_features
         (Returns (JList [good_record]))
       = (Response 400 (error_body ''Invalid input format: cannot build the table''),
          [StValidate, StCheck, StDataFrame])"
    using t [where pd = failing_DataFrame and model = sample_model and ?b3.0 = "[good_record]"
        and ?m3.0 = "''cannot build the table''"] v3 c3 d3
    by simp
  have r4: "predict sample_runtime sample_DataFrame failing_model sample_features
         (Returns (JList [good_record]))
       = (Response 500 (error_body ''Prediction failed: model failure''),
          [StValidate, StCheck, StDataFrame, StModel])"
    using t [where pd = sample_DataFrame and model = failing_model and ?b4.0 = "[good_record]"
        and ?m4.0 = "''model failure''"] v3 c3 d4 m4
    by simp
  from v1 r1 v2 c2 r2 v3 c3 d3 r3 d4 m4 r4 show ?thesis
    by (intro conjI)
qed

lemma sublist_join:
  "x \<in> set xs \<Longrightarrow> sublist x (join sep xs)"
proof (induction sep xs rule: join.induct)
  case (1 sep)
  then show ?case by simp
next
  case (2 sep y)
  then show ?case by simp
next
  case (3 sep y z zs)
  show ?case
  proof (cases "x = y")
    case True
    then show ?thesis by simp
  next
    case False
    with 3 have "sublist x (join sep (z # zs))" by simp
    then have "sublist x ((y @ sep) @ join sep (z # zs))"
      by (rule sublist_order.order.trans) (rule sublist_append_leftI)
    then show ?thesis by simp
  qed
qed

lemma converts_no_type_error:
  assumes "list_all (converts rt kvs) ef"
  shows "type_errors_of rt ef kvs = []" and "\<not> list_ex (field_raises rt kvs) ef"
proof -
  have "field_type_error rt kvs p = [] \<and> \<not> field_raises rt kvs p" if "p \<in> set ef" for p
  proof -
    obtain f ty where p: "p = (f, ty)" by (cases p)
    from assms that have "converts rt kvs p" by (simp add: list_all_iff)
    then show ?thesis
      unfolding p
      by (cases "convert rt ty (dict_get kvs f)") (simp_all del: convert.simps)
  qed
  then show "type_errors_of rt ef kvs = []" and "\<not> list_ex (field_raises rt kvs) ef"
    by (simp_all add: type_errors_of_def list_ex_iff)
qed

text \<open>
  For a field of numeric type whose value converts to a negative number: the field
  loop appends \<^verbatim>\<open>Field '{field}' must be a non-negative number\<close> to \<^verbatim>\<open>invalid_values\<close>
  (and stores the converted value); and when the request passes the presence
  validation, the records before this one are clean and every field of this record
  converts, the response has status 400 and an error message that contains
  \<^verbatim>\<open>Invalid values\<close> and the field's message.
\<close>

lemma negative_value_is_rejected:
  "(numeric ty \<and> dict_get d f \<noteq> JNull \<and> convert rt ty (dict_get d f) = Inr v \<and> lt_zero rt v
      \<longrightarrow> check_fields rt ((f, ty) # rest) (JObj d) type_errors invalid_values
            = check_fields rt rest (JObj (AList.update f v d)) type_errors
                (invalid_values @ [negative_message f]))
   \<and> (numeric ty \<and> (f, ty) \<in> set ef \<and> distinct (map fst ef)
       \<and> validate_input_data rt (pre @ JObj kvs # post) ef = Inr (True, [])
       \<and> list_all (clean_record rt ef) pre
       \<and> list_all (converts rt kvs) ef
       \<and> convert rt ty (dict_get kvs f) = Inr w \<and> lt_zero rt w
      \<longrightarrow> (\<exists>msg. predict rt pd model ef (Returns (JList (pre @ JObj kvs # post)))
                    = (Response 400 (error_body msg), [StValidate, StCheck])
                \<and> sublist ''Invalid values'' msg
                \<and> sublist (negative_message f) msg))"
proof (intro conjI impI)
  assume "numeric ty \<and> dict_get d f \<noteq> JNull \<and> convert rt ty (dict_get d f) = Inr v
            \<and> lt_zero rt v"
  then show "check_fields rt ((f, ty) # rest) (JObj d) type_errors invalid_values
            = check_fields rt rest (JObj (AList.update f v d)) type_errors
                (invalid_values @ [negative_message f])"
    by (simp add: numeric_def del: convert.simps)
next
  assume a: "numeric ty \<and> (f, ty) \<in> set ef \<and> distinct (map fst ef)
       \<and> validate_input_data rt (pre @ JObj kvs # post) ef = Inr (True, [])
       \<and> list_all (clean_record rt ef) pre
       \<and> list_all (converts rt kvs) ef
       \<and> convert rt ty (dict_get kvs f) = Inr w \<and> lt_zero rt w"
  then have num: "numeric ty" and mem: "(f, ty) \<in> set ef" and dist: "distinct (map fst ef)"
    and val: "validate_input_data rt (pre @ JObj kvs # post) ef = Inr (True, [])"
    and pre: "list_all (clean_record rt ef) pre" and conv: "list_all (converts rt kvs) ef"
    and w: "convert rt ty (dict_get kvs f) = Inr w" and neg: "lt_zero rt w"
    by simp_all
  from conv mem have nn: "dict_get kvs f \<noteq> JNull"
    by (auto simp: list_all_iff)
  have fve: "field_value_error rt kvs (f, ty) = [negative_message f]"
    using num nn w neg by (simp del: convert.simps)
  with mem have inl: "negative_message f \<in> set (value_errors_of rt ef kvs)"
    by (force simp: value_errors_of_def)
  note te = converts_no_type_error [OF conv]
  from inl have "\<not> list_all (field_ok rt kvs) ef"
    by (auto simp: clean_iff)
  from check_first_error [OF dist pre te(2) this, of post]
  have chk: "check_data_types_and_values rt (pre @ JObj kvs # post) ef
           = (map (coerced_record rt ef) pre @ JObj (coerced rt ef kvs) # post,
              Inr (False, check_message rt ef (length pre) kvs))" .
  let ?msg = "check_message rt ef (length pre) kvs"
  have msg: "?msg = (record_prefix rt (length pre) @ '': '') @ ''Invalid values''
                      @ ('': '' @ join '', '' (value_errors_of rt ef kvs))"
    by (simp add: check_message_def te(1))
  have "predict rt pd model ef (Returns (JList (pre @ JObj kvs # post)))
          = (Response 400 (error_body ?msg), [StValidate, StCheck])"
    by (simp add: predict_def pipeline_def val chk)
  moreover have "sublist ''Invalid values'' ?msg"
    unfolding msg by (rule sublist_appendI)
  moreover have "sublist (negative_message f) ?msg"
  proof -
    have "sublist (negative_message f) (join '', '' (value_errors_of rt ef kvs))"
      by (rule sublist_join [OF inl])
    then have "sublist (negative_message f)
                 ((record_prefix rt (length pre) @ '': Invalid values: '')
                    @ join '', '' (value_errors_of rt ef kvs))"
      by (rule sublist_order.order.trans) (rule sublist_append_leftI)
    then show ?thesis
      by (simp add: check_message_def te(1))
  qed
  ultimately show "\<exists>msg. predict rt pd model ef (Returns (JList (pre @ JObj kvs # post)))
                    = (Response 400 (error_body msg), [StValidate, StCheck])
                \<and> sublist ''Invalid values'' msg
                \<and> sublist (negative_message f) msg"
    by blast
qed

lemma negative_value_is_rejected_example:
  "numeric PyInt \<and> dict_get negative_fields ''LotArea'' \<noteq> JNull
   \<and> convert sample_runtime PyInt (dict_get negative_fields ''LotArea'') = Inr (JInt (- 100))
   \<and> lt_zero sample_runtime (JInt (- 100))
   \<and> check_fields sample_runtime ((''LotArea'', PyInt) # [(''YearBuilt'', PyInt)])
         (JObj negative_fields) [] []
       = check_fields sample_runtime [(''YearBuilt'', PyInt)]
           (JObj (AList.update ''LotArea'' (JInt (- 100)) negative_fields)) []
           ([] @ [negative_message ''LotArea''])
   \<and> (''LotArea'', PyInt) \<in> set sample_features \<and> distinct (map fst sample_features)
   \<and> validate_input_data sample_runtime ([text_record] @ JObj negative_fields # [good_record])
         sample_features = Inr (True, [])
   \<and> list_all (clean_record sample_runtime sample_features) [text_record]
   \<and> list_all (converts sample_runtime negative_fields) sample_features
   \<and> (\<exists>msg. predict sample_runtime sample_DataFrame sample_model sample_features
                (Returns (JList ([text_record] @ JObj negative_fields # [good_record])))
              = (Response 400 (error_body msg), [StValidate, StCheck])
            \<and> sublist ''Invalid values'' msg
            \<and> sublist (negative_message ''LotArea'') msg)"
proof -
  have a1: "numeric PyInt" by (simp add: numeric_def)
  have a2: "dict_get negative_fields ''LotArea'' \<noteq> JNull" by code_simp
  have a3: "convert sample_runtime PyInt (dict_get negative_fields ''LotArea'') = Inr (JInt (- 100))"
    by code_simp
  have a4: "lt_zero sample_runtime (JInt (- 100))" by simp
  have b1: "(''LotArea'', PyInt) \<in> set sample_features" by (simp add: sample_features_def)
  have b2: "distinct (map fst sample_features)" by (simp add: sample_features_def)
  have b3: "validate_input_data sample_runtime ([text_record] @ JObj negative_fields # [good_record])
         sample_features = Inr (True, [])"
    by code_simp
  have b4: "list_all (clean_record sample_runtime sample_features) [text_record]" by code_simp
  have b5: "list_all (converts sample_runtime negative_fields) sample_features" by code_simp
  note t = negative_value_is_rejected [where rt = sample_runtime and ty = PyInt
      and f = "''LotArea''" and d = negative_fields and v = "JInt (- 100)"
      and rest = "[(''YearBuilt'', PyInt)]" and type_errors = "[]" and invalid_values = "[]"
      and ef = sample_features and pre = "[text_record]" and kvs = negative_fields
      and post = "[good_record]" and w = "JInt (- 100)"
      and pd = sample_DataFrame and model = sample_model]
  from t a1 a2 a3 a4
  have c1: "check_fields sample_runtime ((''LotArea'', PyInt) # [(''YearBuilt'', PyInt)])
         (JObj negative_fields) [] []
       = check_fields sample_runtime [(''YearBuilt'', PyInt)]
           (JObj (AList.update ''LotArea'' (JInt (- 100)) negative_fields)) []
           ([] @ [negative_message ''LotArea''])"
    by blast
  from t a1 a3 a4 b1 b2 b3 b4 b5
  have c2: "\<exists>msg. predict sample_runtime sample_DataFrame sample_model sample_features
                (Returns (JList ([text_record] @ JObj negative_fields # [good_record])))
              = (Response 400 (error_body msg), [StValidate, StCheck])
            \<and> sublist ''Invalid values'' msg
            \<and> sublist (negative_message ''LotArea'') msg"
    by blast
  from a1 a2 a3 a4 c1 b1 b2 b3 b4 b5 c2 show ?thesis
    by (intro conjI)
qed

lemma check_fields_agree:
  "\<forall>g \<in> fst ` set fs. dict_get k1 g = dict_get k2 g \<Longrightarrow>
   snd (check_fields rt fs (JObj k1) tes ivs) = snd (check_fields rt fs (JObj k2) tes ivs)"
proof (induction fs arbitrary: k1 k2 tes ivs)
  case Nil
  show ?case by simp
next
  case (Cons p fs)
  obtain f ty where p: "p = (f, ty)" by (cases p)
  from Cons.prems p have same: "dict_get k1 f = dict_get k2 f"
    and rest: "\<forall>g \<in> fst ` set fs. dict_get k1 g = dict_get k2 g"
    by simp_all
  have upd: "\<forall>g \<in> fst ` set fs. dict_get (AList.update f v k1) g = dict_get (AList.update f v k2) g"
    for v
    using rest by (simp add: dict_get_update)
  show ?case
    unfolding p
    by (cases "convert rt ty (dict_get k2 f)")
      (simp_all add: same Cons.IH [OF rest] Cons.IH [OF upd] del: convert.simps)
qed

lemma check_fields_skip_str:
  assumes "distinct (map fst ef)" and "(f, PyStr) \<in> set ef" and "dict_get kvs f \<noteq> JNull"
  shows "snd (check_fields rt ef (JObj kvs) tes ivs)
           = snd (check_fields rt (filter (\<lambda>p. fst p \<noteq> f) ef) (JObj kvs) tes ivs)"
  using assms
proof (induction ef arbitrary: kvs tes ivs)
  case Nil
  then show ?case by simp
next
  case (Cons p fs)
  obtain g t where p: "p = (g, t)" by (cases p)
  from Cons.prems p have nin: "g \<notin> fst ` set fs" and dist: "distinct (map fst fs)"
    by simp_all
  show ?case
  proof (cases "g = f")
    case True
    with Cons.prems(2) p nin have t: "t = PyStr"
      by (auto simp: image_iff)
    from True nin have "filter (\<lambda>p. fst p \<noteq> f) fs = fs"
      by (auto simp: filter_id_conv)
    moreover have "snd (check_fields rt fs (JObj (AList.update f v kvs)) tes ivs)
                     = snd (check_fields rt fs (JObj kvs) tes ivs)" for v
      using True nin by (intro check_fields_agree) (auto simp: dict_get_update)
    ultimately show ?thesis
      using Cons.prems(3) by (simp add: p True t)
  next
    case False
    with Cons.prems(2) p have mem: "(f, PyStr) \<in> set fs" by auto
    have nn: "dict_get (AList.update g v kvs) f \<noteq> JNull" for v
      using False Cons.prems(3) by (simp add: dict_get_update)
    show ?thesis
      unfolding p
      by (cases "convert rt t (dict_get kvs g)")
        (simp_all add: False Cons.IH [OF dist mem Cons.prems(3)] Cons.IH [OF dist mem nn]
          del: convert.simps)
  qed
qed

text \<open>
  Claim C10. For a field declared \<^verbatim>\<open>str\<close> that holds any non-null value, the
  conversion succeeds, the field contributes neither a type error nor a value error,
  and the outcome of the field loop (the two error lists, or the exception raised by
  another field) is the outcome of the loop over the schema without that field.
\<close>

theorem str_field_contributes_no_error:
  assumes "distinct (map fst ef)" and "(f, PyStr) \<in> set ef" and "dict_get kvs f \<noteq> JNull"
  shows "convert rt PyStr (dict_get kvs f) = Inr (JStr (py_str rt (dict_get kvs f)))
       \<and> field_type_error rt kvs (f, PyStr) = []
       \<and> field_value_error rt kvs (f, PyStr) = []
       \<and> snd (check_fields rt ef (JObj kvs) type_errors invalid_values)
           = snd (check_fields rt (filter (\<lambda>p. fst p \<noteq> f) ef) (JObj kvs)
                    type_errors invalid_values)"
  using assms(3) check_fields_skip_str [OF assms]
  by (simp add: numeric_def)

theorem str_field_contributes_no_error_witness:
  "distinct (map fst named_features) \<and> (''Street'', PyStr) \<in> set named_features
   \<and> dict_get named_fields ''Street'' \<noteq> JNull
   \<and> convert sample_runtime PyStr (dict_get named_fields ''Street'') = Inr (JStr ''7'')
   \<and> field_type_error sample_runtime named_fields (''Street'', PyStr) = []
   \<and> field_value_error sample_runtime named_fields (''Street'', PyStr) = []
   \<and> snd (check_fields sample_runtime named_features (JObj named_fields) [] [])
       = snd (check_fields sample_runtime [(''LotArea'', PyInt)] (JObj named_fields) [] [])
   \<and> snd (check_fields sample_runtime named_features (JObj named_fields) [] [])
       = Inr ([''Field 'LotArea' must be of type int (got value 'abc')''], [])"
proof -
  have h1: "distinct (map fst named_features)" by (simp add: named_features_def)
  have h2: "(''Street'', PyStr) \<in> set named_features" by (simp add: named_features_def)
  have h3: "dict_get named_fields ''Street'' \<noteq> JNull" by code_simp
  have s: "py_str sample_runtime (dict_get named_fields ''Street'') = ''7''"
    by code_simp
  have f: "filter (\<lambda>p. fst p \<noteq> ''Street'') named_features = [(''LotArea'', PyInt)]"
    by (simp add: named_features_def)
  have e: "snd (check_fields sample_runtime named_features (JObj named_fields) [] [])
       = Inr ([''Field 'LotArea' must be of type int (got value 'abc')''], [])"
    by code_simp
  from str_field_contributes_no_error [OF h1 h2 h3, of sample_runtime "[]" "[]"] h1 h2 h3 e
  show ?thesis
    unfolding s f by (intro conjI) simp_all
qed

text \<open>
  Claim C2. A record with \<^verbatim>\<open>"LotArea": "abc"\<close> and \<^verbatim>\<open>"YearBuilt": 1e999\<close>, every field
  declared \<^verbatim>\<open>int\<close>: the first field yields a type error, the conversion of the second
  raises \<^verbatim>\<open>OverflowError\<close>, which the \<^verbatim>\<open>except (ValueError, TypeError)\<close> clause does not
  catch. \<^verbatim>\<open>check_data_types_and_values\<close> returns no message and the exception leaves
  \<^verbatim>\<open>predict\<close>. (For records in which no conversion raises such an exception, lemma
  \<open>check_first_error\<close> above gives the collected errors, the precedence of type
  errors and the stop at the first record with an error.)
\<close>

theorem check_data_types_and_values_overflow:
  "check_data_types_and_values sample_runtime [overflow_record] test_features
     = ([overflow_record], Inl OverflowError)
   \<and> predict sample_runtime sample_DataFrame sample_model test_features
       (Returns overflow_record)
     = (Unhandled OverflowError, [StValidate, StCheck])"
  by code_simp

text \<open>
  Claim C6. A record with \<^verbatim>\<open>"LotArea": -100\<close> and \<^verbatim>\<open>"YearBuilt": 1e999\<close>, every field
  declared \<^verbatim>\<open>int\<close>. The request passes the presence validation, the record has no
  type error, and the field loop records the value error of \<^verbatim>\<open>LotArea\<close>; but the
  conversion of \<^verbatim>\<open>YearBuilt\<close> raises the \<^verbatim>\<open>OverflowError\<close> that the \<^verbatim>\<open>except\<close> clause lets
  through, so the request does not fail with the 400 response and its
  \<^verbatim>\<open>Invalid values\<close> message: the exception leaves \<^verbatim>\<open>predict\<close>.
\<close>

theorem negative_value_lost_by_overflow:
  "validate_input_data sample_runtime [JObj negative_overflow_fields] test_features
     = Inr (True, [])
   \<and> type_errors_of sample_runtime test_features negative_overflow_fields = []
   \<and> check_fields sample_runtime test_features (JObj negative_overflow_fields) [] []
       = check_fields sample_runtime (tl test_features)
           (JObj (AList.update ''LotArea'' (JInt (- 100)) negative_overflow_fields)) []
           [negative_message ''LotArea'']
   \<and> snd (check_fields sample_runtime test_features (JObj negative_overflow_fields) [] [])
       = Inl OverflowError
   \<and> predict sample_runtime sample_DataFrame sample_model test_features
         (Returns (JObj negative_overflow_fields))
       = (Unhandled OverflowError, [StValidate, StCheck])"
  by code_simp

text \<open>
  Claim C8. The record of the test with valid input, with \<^verbatim>\<open>"LotArea": 1e999\<close>, every
  field declared \<^verbatim>\<open>int\<close>. The validation stage passes; the type and value check
  fails on the record by raising \<^verbatim>\<open>OverflowError\<close>; no later stage is called, but
  \<^verbatim>\<open>predict\<close> returns no error response: the exception leaves it.
\<close>

theorem predict_stage_raises:
  "validate_input_data sample_runtime [inf_record] test_features = Inr (True, [])
   \<and> snd (check_data_types_and_values sample_runtime [inf_record] test_features)
       = Inl OverflowError
   \<and> predict sample_runtime sample_DataFrame sample_model test_features (Returns inf_record)
       = (Unhandled OverflowError, [StValidate, StCheck])"
  by code_simp

end
